theory Spec2Isabelle
  imports Main "HOL-Library.AList"
begin

section \<open>Values, documents and the platform\<close>

text \<open>
  JavaScript values as they occur in documents and update maps. An object is the list of
  its own properties in enumeration order, with distinct keys; a property is set with
  \<open>AList.update\<close> (an existing key keeps its place, a new key goes last), as a JavaScript
  object does for string keys. Numbers are integers here, dates are a time stamp.
\<close>

datatype jvalue =
    JUndefined
  | JNull
  | JBool bool
  | JNum int
  | JStr string
  | JDate nat
  | JArr "jvalue list"
  | JObj "(string \<times> jvalue) list"

type_synonym obj = "(string \<times> jvalue) list"

datatype error =
    TypeError
  | SyntaxError
  | MongoError
  | MeteorError string
  | AppError

text \<open>\<open>_.isObject(value) || _.isArray(value)\<close>: objects, arrays and dates, not \<open>null\<close>.\<close>

fun isObject :: "jvalue \<Rightarrow> bool" where
  "isObject (JObj _) = True"
| "isObject (JArr _) = True"
| "isObject (JDate _) = True"
| "isObject _ = False"

text \<open>The truth value JavaScript gives a value in a condition.\<close>

fun truthy :: "jvalue \<Rightarrow> bool" where
  "truthy JUndefined = False"
| "truthy JNull = False"
| "truthy (JBool b) = b"
| "truthy (JNum n) = (n \<noteq> 0)"
| "truthy (JStr s) = (s \<noteq> [])"
| "truthy _ = True"

text \<open>
  What the code takes from its platform: \<open>JSON.stringify\<close> and \<open>JSON.parse\<close> (\<open>None\<close>: the
  parser throws), \<open>Meteor.userId()\<close>, the identifier \<open>Random.id()\<close> gives next,
  \<open>ServerTime.date()\<close> and \<open>Meteor.isServer\<close>; and of the store, what it does with an
  update command other than the six the code has an inverse function for (\<open>$mul\<close>, \<open>$min\<close>,
  \<open>$rename\<close>, ...): given the command, one \<open>field: operand\<close> of its map and the document, the
  document it leaves, or the error it throws, as it does on a command it does not know.
\<close>

record env =
  JSON_stringify :: "jvalue \<Rightarrow> string"
  JSON_parse :: "jvalue \<Rightarrow> jvalue option"
  userId :: "string option"
  Random_id :: string
  now :: nat
  isServer :: bool
  otherCommand :: "string \<Rightarrow> string \<times> jvalue \<Rightarrow> obj \<Rightarrow> error + obj"

section \<open>Storage form of an update map\<close>

text \<open>
  \<open>Transact.prototype._packageForStorage\<close>: every \<open>key: value\<close> of \<open>update.data\<close> becomes a
  pair \<open>{key, value}\<close>, an object or array value wrapped as \<open>{json: JSON.stringify(value)}\<close>.
\<close>

definition packageValue :: "env \<Rightarrow> jvalue \<Rightarrow> jvalue" where
  "packageValue e v =
     (if isObject v then JObj [(''json'', JStr (JSON_stringify e v))] else v)"

definition packageForStorage :: "env \<Rightarrow> string \<times> obj \<Rightarrow> string \<times> (string \<times> jvalue) list" where
  "packageForStorage e update =
     (fst update, map (\<lambda>(key, v). (key, packageValue e v)) (snd update))"

text \<open>
  \<open>Transact.prototype._unpackageForUpdate\<close>. The test \<open>val.value.json\<close> reads a property of
  \<open>val.value\<close>: on \<open>null\<close> and \<open>undefined\<close> that read throws a TypeError, on a string, number or
  boolean it yields \<open>undefined\<close>.
\<close>

fun getJson :: "jvalue \<Rightarrow> error + jvalue" where
  "getJson JUndefined = Inl TypeError"
| "getJson JNull = Inl TypeError"
| "getJson (JObj ps) = Inr (case map_of ps ''json'' of None \<Rightarrow> JUndefined | Some j \<Rightarrow> j)"
| "getJson _ = Inr JUndefined"

definition unpackageValue :: "env \<Rightarrow> jvalue \<Rightarrow> error + jvalue" where
  "unpackageValue e v =
     (case getJson v of
        Inl err \<Rightarrow> Inl err
      | Inr j \<Rightarrow>
          if truthy j
          then (case JSON_parse e j of None \<Rightarrow> Inl SyntaxError | Some u \<Rightarrow> Inr u)
          else Inr v)"

fun unpackageLoop :: "env \<Rightarrow> (string \<times> jvalue) list \<Rightarrow> obj \<Rightarrow> error + obj" where
  "unpackageLoop e [] objForUpdate = Inr objForUpdate"
| "unpackageLoop e ((key, v) # rest) objForUpdate =
     (case unpackageValue e v of
        Inl err \<Rightarrow> Inl err
      | Inr unpackagedValue \<Rightarrow>
          unpackageLoop e rest (AList.update key unpackagedValue objForUpdate))"

definition unpackageForUpdate :: "env \<Rightarrow> (string \<times> jvalue) list \<Rightarrow> error + obj" where
  "unpackageForUpdate e data = unpackageLoop e data []"

section \<open>Inverse of an update command\<close>

text \<open>\<open>key.split('.')\<close>.\<close>

fun splitDot :: "string \<Rightarrow> string \<Rightarrow> string list" where
  "splitDot acc [] = [rev acc]"
| "splitDot acc (c # cs) =
     (if c = CHR ''.'' then rev acc # splitDot [] cs else splitDot (c # acc) cs)"

text \<open>
  \<open>Meteor._get(obj, k1, ..., kn)\<close>, which \<open>_drillDown\<close> calls: at each key,
  \<open>if (!(key in obj)) return undefined; obj = obj[key]\<close>. The \<open>in\<close> operator throws a
  TypeError on a value that is not an object. An array has the property \<open>length\<close> and its
  indices, written in decimal. The properties are a value's own: a key that names one a
  value inherits from its prototype (\<open>constructor\<close>, \<open>toString\<close>, the methods of an array or
  a date), for which \<open>in\<close> holds and the value is a function, is not a key of a document and
  lies outside this model.
\<close>

fun digitsOf :: "nat \<Rightarrow> nat \<Rightarrow> string" where
  "digitsOf 0 n = []"
| "digitsOf (Suc fuel) n =
     (if n < 10 then [char_of (48 + n)]
      else digitsOf fuel (n div 10) @ [char_of (48 + n mod 10)])"

definition indexKey :: "nat \<Rightarrow> string" where
  "indexKey n = digitsOf (Suc n) n"

fun getProp :: "jvalue \<Rightarrow> string \<Rightarrow> error + jvalue option" where
  "getProp (JObj ps) key = Inr (map_of ps key)"
| "getProp (JArr xs) key =
     Inr (if key = ''length'' then Some (JNum (int (length xs)))
          else map_of (map (\<lambda>i. (indexKey i, xs ! i)) [0 ..< length xs]) key)"
| "getProp (JDate _) key = Inr None"
| "getProp _ key = Inl TypeError"

fun meteorGet :: "jvalue \<Rightarrow> string list \<Rightarrow> error + jvalue" where
  "meteorGet ob [] = Inr ob"
| "meteorGet ob (key # keys) =
     (case getProp ob key of
        Inl err \<Rightarrow> Inl err
      | Inr None \<Rightarrow> Inr JUndefined
      | Inr (Some v) \<Rightarrow> meteorGet v keys)"

definition drillDown :: "jvalue \<Rightarrow> string \<Rightarrow> error + jvalue" where
  "drillDown ob key = meteorGet ob (splitDot [] key)"

text \<open>
  \<open>Transact.prototype._inverseUsingSet\<close>: one pass over the keys of the update map with the
  two variables \<open>inverseCommand\<close> and \<open>formerValues\<close>; the result is one command with one map.
\<close>

fun inverseUsingSetLoop ::
  "jvalue \<Rightarrow> string list \<Rightarrow> string \<times> obj \<Rightarrow> error + string \<times> obj" where
  "inverseUsingSetLoop existingDoc [] acc = Inr acc"
| "inverseUsingSetLoop existingDoc (keyName # keys) (inverseCommand, formerValues) =
     (case drillDown existingDoc keyName of
        Inl err \<Rightarrow> Inl err
      | Inr formerVal \<Rightarrow>
          if formerVal \<noteq> JUndefined
          then inverseUsingSetLoop existingDoc keys
                 (''$set'', AList.update keyName formerVal formerValues)
          else inverseUsingSetLoop existingDoc keys
                 (''$unset'', AList.update keyName (JStr '''') formerValues))"

definition inverseUsingSet :: "jvalue \<Rightarrow> obj \<Rightarrow> error + string \<times> obj" where
  "inverseUsingSet existingDoc updateMap =
     inverseUsingSetLoop existingDoc (map fst updateMap) (''$set'', [])"

text \<open>
  The table \<open>this.inverseOperations\<close> of the constructor: the six commands that have an
  inverse function of their own. A command is the name of an update operator, which starts
  with \<open>$\<close>; no property that the table inherits has such a name.
\<close>

definition inverseOperations :: "string \<Rightarrow> (jvalue \<Rightarrow> obj \<Rightarrow> error + string \<times> obj) option" where
  "inverseOperations command =
     (if command = ''$set'' then Some inverseUsingSet
      else if command = ''$addToSet'' then Some (\<lambda>existingDoc updateMap. Inr (''$pull'', updateMap))
      else if command = ''$unset'' then Some inverseUsingSet
      else if command = ''$pull'' then Some (\<lambda>existingDoc updateMap. Inr (''$addToSet'', updateMap))
      else if command = ''$inc'' then Some inverseUsingSet
      else if command = ''$push'' then Some (\<lambda>existingDoc updateMap. Inr (''$pull'', updateMap))
      else None)"


section \<open>The document store\<close>

text \<open>
  The collections the code writes to are Meteor's; what is modelled of them is what the code
  uses: documents found by \<open>_id\<close> (a string), \<open>insert\<close> that gives a document without \<open>_id\<close>
  a new one and throws on a duplicate \<open>_id\<close>, \<open>update\<close> of the first matching document,
  which throws on a command or an operand the store rejects, and \<open>remove\<close>. The six update
  commands of \<open>inverseOperations\<close> are written out; every other command is the platform's
  (\<open>otherCommand\<close>). Field names are taken whole. \<open>update\<close> and \<open>remove\<close> count the
  documents they touch; an update that matches nothing is not an error.
\<close>

type_synonym modifier = "(string \<times> obj) list"

definition fld :: "obj \<Rightarrow> string \<Rightarrow> jvalue" where
  "fld d key = (case map_of d key of None \<Rightarrow> JUndefined | Some v \<Rightarrow> v)"

text \<open>
  The selectors of the code: \<open>{_id: x}\<close>; \<open>{_id: x, transaction_id: t}\<close>, where \<open>t\<close> may be
  \<open>null\<close>, which also matches a missing field; and
  \<open>{_id: x, $and: [{transaction_id: {$exists: true}}, {transaction_id: {$ne: t}}]}\<close>.
\<close>

datatype selector =
    ById string
  | ByIdAndTx string "string option"
  | ByIdOtherTx string string

fun matches :: "selector \<Rightarrow> obj \<Rightarrow> bool" where
  "matches (ById x) d = (fld d ''_id'' = JStr x)"
| "matches (ByIdAndTx x None) d =
     (fld d ''_id'' = JStr x \<and> fld d ''transaction_id'' \<in> {JUndefined, JNull})"
| "matches (ByIdAndTx x (Some t)) d =
     (fld d ''_id'' = JStr x \<and> fld d ''transaction_id'' = JStr t)"
| "matches (ByIdOtherTx x t) d =
     (fld d ''_id'' = JStr x \<and> map_of d ''transaction_id'' \<noteq> None
      \<and> fld d ''transaction_id'' \<noteq> JStr t)"

definition coll_find :: "obj list \<Rightarrow> selector \<Rightarrow> obj list" where
  "coll_find docs sel = filter (matches sel) docs"

definition coll_findOne :: "obj list \<Rightarrow> selector \<Rightarrow> jvalue" where
  "coll_findOne docs sel =
     (case coll_find docs sel of [] \<Rightarrow> JUndefined | d # _ \<Rightarrow> JObj d)"

definition coll_insert :: "env \<Rightarrow> obj list \<Rightarrow> obj \<Rightarrow> error + obj list" where
  "coll_insert e docs d =
     (let d' = (if map_of d ''_id'' = None then AList.update ''_id'' (JStr (Random_id e)) d else d)
      in if fld d' ''_id'' \<in> (\<lambda>x. fld x ''_id'') ` set docs then Inl MongoError
         else Inr (docs @ [d']))"

fun applyField :: "env \<Rightarrow> string \<Rightarrow> string \<times> jvalue \<Rightarrow> obj \<Rightarrow> error + obj" where
  "applyField e command (key, v) d =
     (if command = ''$set'' then Inr (AList.update key v d)
      else if command = ''$unset'' then Inr (AList.delete key d)
      else if command = ''$inc'' then
        (case (map_of d key, v) of
           (None, JNum n) \<Rightarrow> Inr (AList.update key (JNum n) d)
         | (Some (JNum m), JNum n) \<Rightarrow> Inr (AList.update key (JNum (m + n)) d)
         | _ \<Rightarrow> Inl MongoError)
      else if command = ''$push'' then
        (case map_of d key of
           None \<Rightarrow> Inr (AList.update key (JArr [v]) d)
         | Some (JArr xs) \<Rightarrow> Inr (AList.update key (JArr (xs @ [v])) d)
         | _ \<Rightarrow> Inl MongoError)
      else if command = ''$addToSet'' then
        (case map_of d key of
           None \<Rightarrow> Inr (AList.update key (JArr [v]) d)
         | Some (JArr xs) \<Rightarrow>
             Inr (if v \<in> set xs then d else AList.update key (JArr (xs @ [v])) d)
         | _ \<Rightarrow> Inl MongoError)
      else if command = ''$pull'' then
        (case map_of d key of
           None \<Rightarrow> Inr d
         | Some (JArr xs) \<Rightarrow> Inr (AList.update key (JArr (filter (\<lambda>x. x \<noteq> v) xs)) d)
         | _ \<Rightarrow> Inl MongoError)
      else otherCommand e command (key, v) d)"

fun applyFields :: "env \<Rightarrow> string \<Rightarrow> obj \<Rightarrow> obj \<Rightarrow> error + obj" where
  "applyFields e command [] d = Inr d"
| "applyFields e command (kv # kvs) d =
     (case applyField e command kv d of
        Inl err \<Rightarrow> Inl err
      | Inr d' \<Rightarrow> applyFields e command kvs d')"

fun applyModifier :: "env \<Rightarrow> modifier \<Rightarrow> obj \<Rightarrow> error + obj" where
  "applyModifier e [] d = Inr d"
| "applyModifier e ((command, updateMap) # rest) d =
     (case applyFields e command updateMap d of
        Inl err \<Rightarrow> Inl err
      | Inr d' \<Rightarrow> applyModifier e rest d')"

fun coll_update :: "env \<Rightarrow> obj list \<Rightarrow> selector \<Rightarrow> modifier \<Rightarrow> error + obj list \<times> nat" where
  "coll_update e [] sel m = Inr ([], 0)"
| "coll_update e (d # ds) sel m =
     (if matches sel d
      then (case applyModifier e m d of
              Inl err \<Rightarrow> Inl err
            | Inr d' \<Rightarrow> Inr (d' # ds, 1))
      else (case coll_update e ds sel m of
              Inl err \<Rightarrow> Inl err
            | Inr (ds', n) \<Rightarrow> Inr (d # ds', n)))"

definition coll_remove :: "obj list \<Rightarrow> selector \<Rightarrow> obj list \<times> nat" where
  "coll_remove docs sel =
     (filter (\<lambda>d. \<not> matches sel d) docs, length (filter (matches sel) docs))"

section \<open>Transactions and their items\<close>

datatype action = Insert | Update | Remove

datatype tstate = Pending | Done | RolledBack | Undone

text \<open>
  An item as \<open>_createItem\<close> builds it: \<open>{collection, _id, action, state}\<close>, the flags
  \<open>instant\<close> and \<open>noCheck\<close>, and the fields of \<open>fieldData\<close>: \<open>newDoc\<close> for an insert,
  \<open>update\<close> and \<open>inverse\<close> (a command and its packaged data) for an update, \<open>hardDelete\<close>
  and \<open>doc\<close> for a remove.
\<close>

type_synonym packaged = "string \<times> (string \<times> jvalue) list"

record item =
  i_collection :: string
  i_id :: string
  i_action :: action
  i_state :: tstate
  i_instant :: bool
  i_noCheck :: bool
  i_newDoc :: "obj option"
  i_update :: "packaged option"
  i_inverse :: "packaged option"
  i_hardDelete :: bool
  i_doc :: "obj option"

record fieldData =
  f_newDoc :: "obj option"
  f_update :: "packaged option"
  f_inverse :: "packaged option"
  f_hardDelete :: bool
  f_doc :: "obj option"

definition createItem ::
  "action \<Rightarrow> string \<Rightarrow> string \<Rightarrow> fieldData option \<Rightarrow> bool \<Rightarrow> bool \<Rightarrow> item" where
  "createItem type collectionName ident fieldData instant permissionCheckOverridden =
     \<lparr> i_collection = collectionName, i_id = ident, i_action = type,
       i_state = (if instant then Done else Pending),
       i_instant = instant,
       i_noCheck = permissionCheckOverridden,
       i_newDoc = (case fieldData of None \<Rightarrow> None | Some f \<Rightarrow> f_newDoc f),
       i_update = (case fieldData of None \<Rightarrow> None | Some f \<Rightarrow> f_update f),
       i_inverse = (case fieldData of None \<Rightarrow> None | Some f \<Rightarrow> f_inverse f),
       i_hardDelete = (case fieldData of None \<Rightarrow> False | Some f \<Rightarrow> f_hardDelete f),
       i_doc = (case fieldData of None \<Rightarrow> None | Some f \<Rightarrow> f_doc f) \<rparr>"

text \<open>
  A record of the \<open>transactions\<close> collection. \<open>items\<close> is missing on a record that
  \<open>_recordTransaction\<close> has just inserted; it is an array afterwards. A write of
  \<open>items.<index>.state\<close> creates what is missing on its path: beyond the end of the array
  the store pads with \<open>null\<close> and appends \<open>{state: ...}\<close>, and without an \<open>items\<close> field it
  creates an object keyed by the index. \<open>undone\<close> is a date or missing; \<open>expired\<close> is set
  or missing.
\<close>

datatype stored_item = Item item | StateOnly tstate | NullItem

datatype items_field =
    ItemsUndefined
  | ItemsArray "stored_item list"
  | ItemsObject "(nat \<times> tstate) list"

record txrecord =
  tr_id :: string
  tr_user_id :: "string option"
  tr_lastModified :: nat
  tr_description :: string
  tr_context :: obj
  tr_state :: tstate
  tr_items :: items_field
  tr_undone :: "nat option"
  tr_expired :: bool

record store =
  collectionIndex :: "(string \<times> obj list) list"
  Transactions :: "txrecord list"

text \<open>\<open>Transactions.update({_id: txid}, ...)\<close> with a change of the record that cannot fail.\<close>

definition updateTransaction :: "string option \<Rightarrow> (txrecord \<Rightarrow> txrecord) \<Rightarrow> store \<Rightarrow> store" where
  "updateTransaction txid f st =
     st\<lparr>Transactions := map (\<lambda>t. if Some (tr_id t) = txid then f t else t) (Transactions st)\<rparr>"

definition removeTransaction :: "string option \<Rightarrow> store \<Rightarrow> store" where
  "removeTransaction txid st =
     st\<lparr>Transactions := filter (\<lambda>t. Some (tr_id t) \<noteq> txid) (Transactions st)\<rparr>"

definition findTransaction :: "store \<Rightarrow> string option \<Rightarrow> txrecord option" where
  "findTransaction st txid = find (\<lambda>t. Some (tr_id t) = txid) (Transactions st)"

text \<open>
  \<open>Transact.prototype._changeItemState\<close>:
  \<open>Transactions.update({_id: data.txid}, {$set: {"items.<index>.state": data.state}})\<close>.
  The store refuses to write below a \<open>null\<close> element of the array.
\<close>

definition setItemState :: "nat \<Rightarrow> tstate \<Rightarrow> items_field \<Rightarrow> error + items_field" where
  "setItemState index s its =
     (case its of
        ItemsUndefined \<Rightarrow> Inr (ItemsObject [(index, s)])
      | ItemsObject m \<Rightarrow> Inr (ItemsObject (AList.update index s m))
      | ItemsArray xs \<Rightarrow>
          if index < length xs
          then (case xs ! index of
                  Item it \<Rightarrow> Inr (ItemsArray (xs[index := Item (it\<lparr>i_state := s\<rparr>)]))
                | StateOnly _ \<Rightarrow> Inr (ItemsArray (xs[index := StateOnly s]))
                | NullItem \<Rightarrow> Inl MongoError)
          else Inr (ItemsArray (xs @ replicate (index - length xs) NullItem @ [StateOnly s])))"

definition changeItemState :: "string option \<Rightarrow> nat \<Rightarrow> tstate \<Rightarrow> store \<Rightarrow> error + store" where
  "changeItemState txid index s st =
     (case findTransaction st txid of
        None \<Rightarrow> Inr st
      | Some t \<Rightarrow>
          (case setItemState index s (tr_items t) of
             Inl err \<Rightarrow> Inl err
           | Inr its \<Rightarrow> Inr (updateTransaction txid (\<lambda>t. t\<lparr>tr_items := its\<rparr>) st)))"

text \<open>A call of a method of \<open>tx.collectionIndex[name]\<close>; on an unknown name it is a TypeError.\<close>

definition storeInsert :: "env \<Rightarrow> string \<Rightarrow> obj \<Rightarrow> store \<Rightarrow> error + store" where
  "storeInsert e c d st =
     (case map_of (collectionIndex st) c of
        None \<Rightarrow> Inl TypeError
      | Some docs \<Rightarrow>
          (case coll_insert e docs d of
             Inl err \<Rightarrow> Inl err
           | Inr docs' \<Rightarrow> Inr (st\<lparr>collectionIndex := AList.update c docs' (collectionIndex st)\<rparr>)))"

definition storeUpdate :: "env \<Rightarrow> string \<Rightarrow> selector \<Rightarrow> modifier \<Rightarrow> store \<Rightarrow> error + store" where
  "storeUpdate e c sel m st =
     (case map_of (collectionIndex st) c of
        None \<Rightarrow> Inl TypeError
      | Some docs \<Rightarrow>
          (case coll_update e docs sel m of
             Inl err \<Rightarrow> Inl err
           | Inr (docs', n) \<Rightarrow>
               Inr (st\<lparr>collectionIndex := AList.update c docs' (collectionIndex st)\<rparr>)))"

definition storeRemove :: "string \<Rightarrow> selector \<Rightarrow> store \<Rightarrow> error + store" where
  "storeRemove c sel st =
     (case map_of (collectionIndex st) c of
        None \<Rightarrow> Inl TypeError
      | Some docs \<Rightarrow>
          Inr (st\<lparr>collectionIndex := AList.update c (fst (coll_remove docs sel)) (collectionIndex st)\<rparr>))"

definition storeFindOne :: "string \<Rightarrow> selector \<Rightarrow> store \<Rightarrow> error + jvalue" where
  "storeFindOne c sel st =
     (case map_of (collectionIndex st) c of
        None \<Rightarrow> Inl TypeError
      | Some docs \<Rightarrow> Inr (coll_findOne docs sel))"

text \<open>
  The writes the code queues as closures in \<open>queuedItems\<close>, each with the values it has
  captured.
\<close>

datatype op =
    OpInsert string obj
  | OpUpdate string selector modifier
  | OpRemove string selector

fun execOp :: "env \<Rightarrow> op \<Rightarrow> store \<Rightarrow> error + store" where
  "execOp e (OpInsert c d) st = storeInsert e c d st"
| "execOp e (OpUpdate c sel m) st = storeUpdate e c sel m st"
| "execOp e (OpRemove c sel) st = storeRemove c sel st"

section \<open>The transaction manager\<close>

text \<open>
  The settings of the \<open>tx\<close> object that the modelled functions read. \<open>checkPermission\<close> is the
  application's: it gets the action, the collection (its name and, when the name is known,
  its documents), the document and the modifier, and may throw (\<open>None\<close>).
\<close>

record config =
  requireUser :: bool
  removeRolledBackTransactions :: bool
  selfRepairMode :: string
  checkPermission :: "string \<Rightarrow> string \<Rightarrow> obj list option \<Rightarrow> jvalue \<Rightarrow> modifier \<Rightarrow> bool option"
  makeContext :: "string \<Rightarrow> string \<Rightarrow> jvalue \<Rightarrow> modifier \<Rightarrow> obj"

record lastTransactionData =
  ltd_transaction_id :: "string option"
  ltd_writes :: "item list option"

text \<open>The variables of the \<open>tx\<close> object (\<open>_transaction_id\<close>, \<open>_items\<close>, ...).\<close>

record transact =
  tx_transaction_id :: "string option"
  tx_autoTransaction :: bool
  tx_items :: "item list"
  tx_startAttempts :: int
  tx_rollback :: bool
  tx_rollbackReason :: string
  tx_lastTransactionData :: "lastTransactionData option"
  tx_context :: obj
  tx_description :: string

datatype callback_result = ResFalse | ResNewIds "(string \<times> string list) list"

text \<open>
  The \<open>tx\<close> object, the store, and the calls made so far of a callback the caller supplied,
  each with its \<open>err\<close> and \<open>res\<close>.
\<close>

record world =
  tx :: transact
  db :: store
  called :: "(error option \<times> callback_result) list"

text \<open>What a function of the public API gives back: a value, or an exception.\<close>

datatype ret = RetUndefined | RetTrue | RetFalse | RetId string | RetThrow error

text \<open>An argument that the code inspects with \<open>_.isFunction\<close>, \<open>typeof\<close> and \<open>_.isString\<close>.\<close>

datatype jsarg = ArgUndefined | ArgNull | ArgString string | ArgFunction | ArgObject

definition cleanReset :: "transact \<Rightarrow> transact" where
  "cleanReset t =
     t\<lparr> tx_transaction_id := None, tx_autoTransaction := False, tx_items := [],
        tx_startAttempts := 0, tx_rollback := False, tx_rollbackReason := [],
        tx_context := [], tx_description := [] \<rparr>"

text \<open>\<open>Transact.prototype._callback\<close>: the first of \<open>a\<close>, \<open>b\<close> that is a function is called.\<close>

definition callback :: "jsarg \<Rightarrow> jsarg \<Rightarrow> error option \<Rightarrow> callback_result \<Rightarrow> world \<Rightarrow> world" where
  "callback a b err res w =
     (if a = ArgFunction \<or> b = ArgFunction then w\<lparr>called := called w @ [(err, res)]\<rparr> else w)"

definition permissionCheck ::
  "config \<Rightarrow> string \<Rightarrow> string \<Rightarrow> store \<Rightarrow> jvalue \<Rightarrow> modifier \<Rightarrow> bool option" where
  "permissionCheck cfg act c st d updates =
     checkPermission cfg act c (map_of (collectionIndex st) c) d updates"

definition txidValue :: "string option \<Rightarrow> jvalue" where
  "txidValue txid = (case txid of None \<Rightarrow> JNull | Some t \<Rightarrow> JStr t)"

text \<open>\<open>Transact.prototype._setContext\<close>: \<open>_.extend(this._context, context)\<close>.\<close>

definition extendObj :: "obj \<Rightarrow> obj \<Rightarrow> obj" where
  "extendObj destination source = fold (\<lambda>(k, v). AList.update k v) source destination"

definition setContext :: "obj \<Rightarrow> transact \<Rightarrow> transact" where
  "setContext context t = t\<lparr>tx_context := extendObj (tx_context t) context\<rparr>"

text \<open>
  \<open>Transact.prototype._recordTransaction\<close>: the record is inserted, without \<open>items\<close>, when
  there is none yet, and the item is added with \<open>$addToSet\<close>, which throws on an \<open>items\<close>
  that is not an array. Without an open transaction the record gets an identifier of the
  store's and the update finds nothing.
\<close>

definition addToSetItems :: "item \<Rightarrow> items_field \<Rightarrow> error + items_field" where
  "addToSetItems it its =
     (case its of
        ItemsUndefined \<Rightarrow> Inr (ItemsArray [Item it])
      | ItemsArray xs \<Rightarrow> Inr (ItemsArray (if Item it \<in> set xs then xs else xs @ [Item it]))
      | ItemsObject m \<Rightarrow> Inl MongoError)"

definition recordTransaction :: "env \<Rightarrow> config \<Rightarrow> item \<Rightarrow> world \<Rightarrow> error + world" where
  "recordTransaction e cfg it w =
     (let txid = tx_transaction_id (tx w);
          st = db w;
          st1 = (if findTransaction st txid = None
                 then st\<lparr>Transactions := Transactions st @
                        [\<lparr> tr_id = (case txid of None \<Rightarrow> Random_id e | Some t \<Rightarrow> t),
                           tr_user_id = userId e,
                           tr_lastModified = now e,
                           tr_description = tx_description (tx w),
                           tr_context = tx_context (tx w),
                           tr_state = Pending,
                           tr_items = ItemsUndefined,
                           tr_undone = None,
                           tr_expired = False \<rparr>]\<rparr>
                 else st)
      in case findTransaction st1 txid of
           None \<Rightarrow> Inr (w\<lparr>db := st1\<rparr>)
         | Some t \<Rightarrow>
             (case addToSetItems it (tr_items t) of
                Inl err \<Rightarrow> Inl err
              | Inr its \<Rightarrow>
                  Inr (w\<lparr>db := updateTransaction txid (\<lambda>t. t\<lparr>tr_items := its\<rparr>) st1\<rparr>)))"

text \<open>\<open>Transact.prototype._pushToRecord\<close> (the idle timer it restarts is not modelled).\<close>

definition pushToRecord ::
  "action \<Rightarrow> string \<Rightarrow> string \<Rightarrow> fieldData option \<Rightarrow> bool \<Rightarrow> bool \<Rightarrow> transact \<Rightarrow> transact" where
  "pushToRecord type c ident fieldData instant permissionCheckOverridden t =
     t\<lparr>tx_items := tx_items t @ [createItem type c ident fieldData instant permissionCheckOverridden]\<rparr>"

subsection \<open>Rollback\<close>

text \<open>
  \<open>Transact.prototype.rollback\<close>: \<open>_.each(items, function (obj, index) ...)\<close>, from the first
  item to the last, with the flag \<open>error\<close> shared by all items. A store call inside
  \<open>try\<close> that throws sets the flag; \<open>_unpackageForUpdate\<close> and \<open>_changeItemState\<close> are called
  outside \<open>try\<close>, so what they throw leaves the function. \<open>rollbackAction\<close> is the store
  call the loop body makes for an item, if any.
\<close>

definition rollbackAction :: "env \<Rightarrow> string option \<Rightarrow> item \<Rightarrow> error + op option" where
  "rollbackAction e txid ob =
     (case i_action ob of
        Remove \<Rightarrow>
          if i_instant ob
          then (case i_doc ob of
                  Some d \<Rightarrow> Inr (Some (OpInsert (i_collection ob) d))
                | None \<Rightarrow>
                    Inr (Some (OpUpdate (i_collection ob) (ById (i_id ob))
                      [(''$unset'', [(''deleted'', JNum 1), (''transaction_id'', txidValue txid)])])))
          else Inr None
      | Update \<Rightarrow>
          (case i_inverse ob of
             Some (command, data) \<Rightarrow>
               if i_instant ob \<and> command \<noteq> []
               then (case unpackageForUpdate e data of
                       Inl err \<Rightarrow> Inl err
                     | Inr m \<Rightarrow>
                         Inr (Some (OpUpdate (i_collection ob) (ById (i_id ob)) [(command, m)])))
               else Inr None
           | None \<Rightarrow> Inr None)
      | Insert \<Rightarrow>
          if i_instant ob
          then Inr (Some (OpRemove (i_collection ob) (ByIdAndTx (i_id ob) txid)))
          else Inr None)"

fun rollbackLoop ::
  "env \<Rightarrow> string option \<Rightarrow> item list \<Rightarrow> nat \<Rightarrow> store \<times> bool \<Rightarrow> store \<times> bool \<times> error option" where
  "rollbackLoop e txid [] index (st, error) = (st, error, None)"
| "rollbackLoop e txid (ob # rest) index (st, error) =
     (case rollbackAction e txid ob of
        Inl err \<Rightarrow> (st, error, Some err)
      | Inr a \<Rightarrow>
          (let (st1, error1) =
                 (case a of
                    None \<Rightarrow> (st, error)
                  | Some w \<Rightarrow>
                      (case execOp e w st of
                         Inl err \<Rightarrow> (st, True)
                       | Inr st' \<Rightarrow> (st', error)))
           in if \<not> error1
              then (case changeItemState txid index RolledBack st1 of
                      Inl err \<Rightarrow> (st1, error1, Some err)
                    | Inr st2 \<Rightarrow> rollbackLoop e txid rest (Suc index) (st2, error1))
              else rollbackLoop e txid rest (Suc index) (st1, error1)))"

definition rollback :: "env \<Rightarrow> config \<Rightarrow> world \<Rightarrow> world \<times> error option" where
  "rollback e cfg w =
     (let txid = tx_transaction_id (tx w)
      in case rollbackLoop e txid (tx_items (tx w)) 0 (db w, False) of
           (st, error, Some err) \<Rightarrow> (w\<lparr>db := st\<rparr>, Some err)
         | (st, error, None) \<Rightarrow>
             (w\<lparr> db := (if removeRolledBackTransactions cfg
                         then removeTransaction txid st
                         else updateTransaction txid (\<lambda>t. t\<lparr>tr_state := RolledBack\<rparr>) st),
                 tx := cleanReset (tx w) \<rparr>, None))"

subsection \<open>Start and commit\<close>

definition start :: "env \<Rightarrow> config \<Rightarrow> string option \<Rightarrow> world \<Rightarrow> world \<times> ret" where
  "start e cfg description w =
     (if requireUser cfg \<and> userId e = None
      then (w\<lparr>tx := cleanReset (tx w)\<rparr>, RetUndefined)
      else if tx_transaction_id (tx w) = None
      then (w\<lparr>tx := (tx w)
                 \<lparr> tx_description := (case description of None \<Rightarrow> ''last action'' | Some d \<Rightarrow> d),
                   tx_transaction_id := Some (Random_id e) \<rparr>\<rparr>,
            RetId (Random_id e))
      else (w\<lparr>tx := (tx w)\<lparr>tx_startAttempts := tx_startAttempts (tx w) + 1\<rparr>\<rparr>, RetFalse))"

text \<open>
  \<open>Meteor.call("_meteorTransactionsProcess", txid, description, items, context, function
  (err, res) ...)\<close> crosses to the executor. \<open>commit\<close> sees one of three outcomes: the call
  throws; the function is called with \<open>err\<close>; the function is called with \<open>res\<close>, which is
  \<open>undefined\<close> (\<open>None\<close>) when the method has returned nothing, and else holds the items of
  the final record. The function runs before \<open>Meteor.call\<close> returns, as on the server.
\<close>

datatype call_outcome =
    CallThrew error
  | CallbackErr error
  | CallbackRes "item list option"

type_synonym meteorCall = "string \<Rightarrow> string \<Rightarrow> item list \<Rightarrow> obj \<Rightarrow> world \<Rightarrow> world \<times> call_outcome"

text \<open>The \<open>_.reduce\<close> over \<open>res.items\<close>: the identifiers of the inserts, by collection.\<close>

fun newIds :: "item list \<Rightarrow> (string \<times> string list) list \<Rightarrow> (string \<times> string list) list" where
  "newIds [] memo = memo"
| "newIds (it # rest) memo =
     (if i_action it = Insert
      then newIds rest
             (AList.update (i_collection it)
                ((case map_of memo (i_collection it) of None \<Rightarrow> [] | Some ids \<Rightarrow> ids) @ [i_id it])
                memo)
      else newIds rest memo)"

definition multipleTransactionsOpen :: "jsarg \<Rightarrow> jsarg \<Rightarrow> world \<Rightarrow> world \<times> ret" where
  "multipleTransactionsOpen txid cb w =
     (callback txid cb (Some (MeteorError ''multiple-transactions-open'')) ResFalse
        (w\<lparr>tx := (tx w)\<lparr>tx_startAttempts := tx_startAttempts (tx w) - 1\<rparr>\<rparr>),
      RetUndefined)"

definition rollbackAndReport :: "env \<Rightarrow> config \<Rightarrow> jsarg \<Rightarrow> jsarg \<Rightarrow> string \<Rightarrow> world \<Rightarrow> world \<times> ret" where
  "rollbackAndReport e cfg txid cb reason w =
     (case rollback e cfg w of
        (w', Some err) \<Rightarrow> (w', RetThrow err)
      | (w', None) \<Rightarrow> (callback txid cb (Some (MeteorError reason)) ResFalse w', RetUndefined))"

text \<open>
  \<open>Transact.prototype.commit\<close>, branch by branch in the order of the source. The last
  argument \<open>newId\<close> is not used by the function.
\<close>

definition commit :: "env \<Rightarrow> config \<Rightarrow> meteorCall \<Rightarrow> jsarg \<Rightarrow> jsarg \<Rightarrow> world \<Rightarrow> world \<times> ret" where
  "commit e cfg call txid cb w =
     (if requireUser cfg \<and> userId e = None then (w, RetUndefined)
      else
        let w1 = w\<lparr>tx := (tx w)\<lparr>tx_lastTransactionData :=
                   Some \<lparr>ltd_transaction_id = tx_transaction_id (tx w), ltd_writes = None\<rparr>\<rparr>\<rparr>
        in case tx_transaction_id (tx w1) of
             None \<Rightarrow>
               (callback txid cb (Some (MeteorError ''no-transactions-open'')) ResFalse
                  (w1\<lparr>tx := cleanReset (tx w1)\<rparr>),
                RetUndefined)
           | Some cur \<Rightarrow>
               if (case txid of ArgString s \<Rightarrow> s \<noteq> cur | _ \<Rightarrow> False)
               then multipleTransactionsOpen txid cb w1
               else if tx_startAttempts (tx w1) > 0 \<and> \<not> (txid = ArgString cur \<or> txid = ArgNull)
               then multipleTransactionsOpen txid cb w1
               else if tx_items (tx w1) = [] then (w1, RetTrue)
               else if tx_rollback (tx w1)
               then rollbackAndReport e cfg txid cb (tx_rollbackReason (tx w1)) w1
               else
                 (case call cur (tx_description (tx w1)) (tx_items (tx w1)) (tx_context (tx w1)) w1 of
                    (w2, CallThrew err) \<Rightarrow> rollbackAndReport e cfg txid cb ''error'' w2
                  | (w2, CallbackErr err) \<Rightarrow> (w2, RetTrue)
                  | (w2, CallbackRes res) \<Rightarrow>
                      (let w3 = w2\<lparr>tx := (tx w2)\<lparr>tx_lastTransactionData :=
                                  Some \<lparr>ltd_transaction_id = tx_transaction_id (tx w2),
                                        ltd_writes = (case tx_lastTransactionData (tx w2) of
                                                        None \<Rightarrow> None
                                                      | Some l \<Rightarrow> ltd_writes l)\<rparr>\<rparr>\<rparr>
                       in case res of
                            None \<Rightarrow> rollbackAndReport e cfg txid cb ''error'' w3
                          | Some its \<Rightarrow>
                              (callback txid cb None (ResNewIds (newIds its []))
                                 (w3\<lparr>tx := cleanReset ((tx w3)\<lparr>tx_lastTransactionData :=
                                    Some \<lparr>ltd_transaction_id = tx_transaction_id (tx w2),
                                          ltd_writes = Some its\<rparr>\<rparr>)\<rparr>),
                               RetTrue))))"

text \<open>\<open>Transact.prototype.cancel\<close>.\<close>

definition cancel :: "world \<Rightarrow> world" where
  "cancel w = w\<lparr>tx := (tx w)\<lparr>tx_rollback := True, tx_rollbackReason := ''transaction-cancelled''\<rparr>\<rparr>"

subsection \<open>Queueing an update\<close>

text \<open>The options of a call, after \<open>opt.tx\<close> has been unwrapped and \<open>tx\<close> omitted.\<close>

record options =
  o_instant :: bool
  o_overridePermissionCheck :: bool
  o_inverse :: "(string \<times> obj) option"
  o_context :: "obj option"

definition permissionCheckOverridden :: "options option \<Rightarrow> bool" where
  "permissionCheckOverridden opt =
     (case opt of None \<Rightarrow> False | Some opts \<Rightarrow> o_overridePermissionCheck opts)"

definition openAutoTransaction :: "env \<Rightarrow> config \<Rightarrow> string \<Rightarrow> world \<Rightarrow> world" where
  "openAutoTransaction e cfg description w =
     (if tx_transaction_id (tx w) = None
      then fst (start e cfg (Some description)
                  (w\<lparr>tx := (tx w)\<lparr>tx_autoTransaction := True, tx_description := description\<rparr>\<rparr>))
      else w)"

definition closeAutoTransaction ::
  "env \<Rightarrow> config \<Rightarrow> meteorCall \<Rightarrow> jsarg \<Rightarrow> world \<Rightarrow> world \<times> ret" where
  "closeAutoTransaction e cfg call opt w =
     (if tx_autoTransaction (tx w) then commit e cfg call opt ArgUndefined w
      else (w, RetUndefined))"

text \<open>
  The inverse that \<open>update\<close> records for one command of the modifier (lines 544 to 556):
  the caller's \<open>opt.inverse\<close> when there is one; else the function of \<open>inverseOperations\<close>
  for the command, if it has one; else \<open>_inverseUsingSet\<close>.
\<close>

definition inverseFor :: "options option \<Rightarrow> string \<Rightarrow> jvalue \<Rightarrow> obj \<Rightarrow> error + string \<times> obj" where
  "inverseFor opt command existingDoc updateMap =
     (case (case opt of None \<Rightarrow> None | Some opts \<Rightarrow> o_inverse opts) of
        None \<Rightarrow>
          (case inverseOperations command of
             Some f \<Rightarrow> f existingDoc updateMap
           | None \<Rightarrow> inverseUsingSet existingDoc updateMap)
      | Some custom \<Rightarrow> Inr custom)"

text \<open>
  \<open>Transact.prototype._doUpdate\<close>. An instant update that executes adds \<open>transaction_id\<close> to
  the \<open>$set\<close> map of \<open>updates\<close>, which is the very object \<open>updateData.data\<close> when the command
  is \<open>$set\<close>; it records the item in the store, writes the document, and takes
  \<open>transaction_id\<close> out of the map again before the item is pushed.
\<close>

definition withTransactionId :: "string option \<Rightarrow> modifier \<Rightarrow> modifier" where
  "withTransactionId txid updates =
     (case map_of updates ''$set'' of
        Some m \<Rightarrow> AList.update ''$set'' (AList.update ''transaction_id'' (txidValue txid) m) updates
      | None \<Rightarrow> updates @ [(''$set'', [(''transaction_id'', txidValue txid)])])"

definition updateFieldData :: "env \<Rightarrow> string \<times> obj \<Rightarrow> string \<times> obj \<Rightarrow> fieldData" where
  "updateFieldData e updateData inverseData =
     \<lparr> f_newDoc = None,
       f_update = Some (packageForStorage e updateData),
       f_inverse = Some (packageForStorage e inverseData),
       f_hardDelete = False,
       f_doc = None \<rparr>"

definition doUpdate ::
  "env \<Rightarrow> config \<Rightarrow> string \<Rightarrow> string \<Rightarrow> modifier \<Rightarrow> string \<times> obj \<Rightarrow> string \<times> obj \<Rightarrow> bool \<Rightarrow>
   options option \<Rightarrow> bool \<Rightarrow> world \<Rightarrow> world \<times> error option" where
  "doUpdate e cfg c ident updates updateData inverseData instant opt execute w =
     (let txid = tx_transaction_id (tx w);
          push = (\<lambda>ud w. w\<lparr>tx := pushToRecord Update c ident
                             (Some (updateFieldData e ud inverseData)) instant
                             (permissionCheckOverridden opt) (tx w)\<rparr>)
      in if instant \<and> execute
         then
           (let aliased = (if fst updateData = ''$set''
                           then AList.update ''transaction_id'' (txidValue txid) (snd updateData)
                           else snd updateData);
                it = createItem Update c ident
                       (Some (updateFieldData e (fst updateData, aliased) inverseData))
                       instant (permissionCheckOverridden opt)
            in case recordTransaction e cfg it w of
                 Inl err \<Rightarrow> (w, Some err)
               | Inr w1 \<Rightarrow>
                   (case storeUpdate e c (ById ident) (withTransactionId txid updates) (db w1) of
                      Inl err \<Rightarrow> (w1, Some (MeteorError ''Update failed''))
                    | Inr st \<Rightarrow>
                        (push (fst updateData,
                               if fst updateData = ''$set''
                               then AList.delete ''transaction_id'' aliased
                               else snd updateData)
                           (w1\<lparr>db := st\<rparr>), None)))
         else (push updateData w, None))"

text \<open>
  The loop of \<open>update\<close> over the commands of the modifier. What \<open>_doUpdate\<close> throws is caught
  for an instant update and sets \<open>_rollback\<close>; computing the inverse is outside \<open>try\<close>.
\<close>

fun updateLoop ::
  "env \<Rightarrow> config \<Rightarrow> string \<Rightarrow> string \<Rightarrow> modifier \<Rightarrow> jvalue \<Rightarrow> options option \<Rightarrow>
   modifier \<Rightarrow> world \<Rightarrow> world \<times> error option" where
  "updateLoop e cfg c ident updates existingDoc opt [] w = (w, None)"
| "updateLoop e cfg c ident updates existingDoc opt ((command, updateMap) # rest) w =
     (case inverseFor opt command existingDoc updateMap of
        Inl err \<Rightarrow> (w, Some err)
      | Inr inverseData \<Rightarrow>
          (let w1 = w\<lparr>tx := setContext
                      (case (case opt of None \<Rightarrow> None | Some opts \<Rightarrow> o_context opts) of
                         Some context \<Rightarrow> context
                       | None \<Rightarrow> makeContext cfg ''update'' c existingDoc updates)
                      (tx w)\<rparr>;
               instant = (case opt of None \<Rightarrow> False | Some opts \<Rightarrow> o_instant opts)
           in case doUpdate e cfg c ident updates (command, updateMap) inverseData instant opt
                     (rest = []) w1 of
                (w2, Some err) \<Rightarrow>
                  if instant
                  then updateLoop e cfg c ident updates existingDoc opt rest
                         (w2\<lparr>tx := (tx w2)\<lparr>tx_rollback := True,
                                             tx_rollbackReason := ''update-error''\<rparr>\<rparr>)
                  else (w2, Some err)
              | (w2, None) \<Rightarrow> updateLoop e cfg c ident updates existingDoc opt rest w2))"

text \<open>
  \<open>Transact.prototype.update\<close>. The collection is given by its name, the document by its
  \<open>_id\<close>; the caller's callback for the single write is left out. The result
  \<open>!this._rollback\<close> is read after the automatic commit, if there is one.
\<close>

definition update ::
  "env \<Rightarrow> config \<Rightarrow> meteorCall \<Rightarrow> string \<Rightarrow> string \<Rightarrow> modifier \<Rightarrow> options option \<Rightarrow>
   world \<Rightarrow> world \<times> ret" where
  "update e cfg call c ident updates opt w =
     (if tx_rollback (tx w) \<or> (requireUser cfg \<and> userId e = None) then (w, RetUndefined)
      else
        case storeFindOne c (ById ident) (db w) of
          Inl err \<Rightarrow> (w, RetThrow err)
        | Inr existingDoc \<Rightarrow>
            (case (if permissionCheckOverridden opt then Some True
                   else permissionCheck cfg ''update'' c (db w) existingDoc updates) of
               None \<Rightarrow> (w, RetThrow AppError)
             | Some False \<Rightarrow>
                 (w\<lparr>tx := (tx w)\<lparr>tx_rollback := True,
                                  tx_rollbackReason := ''permission-denied''\<rparr>\<rparr>,
                  RetUndefined)
             | Some True \<Rightarrow>
                 (let w1 = openAutoTransaction e cfg (''update '' @ butlast c) w
                  in case updateLoop e cfg c ident updates existingDoc opt updates w1 of
                       (w2, Some err) \<Rightarrow> (w2, RetThrow err)
                     | (w2, None) \<Rightarrow>
                         (case closeAutoTransaction e cfg call
                                 (if opt = None \<and> updates = [] then ArgUndefined else ArgObject) w2 of
                            (w3, RetThrow err) \<Rightarrow> (w3, RetThrow err)
                          | (w3, _) \<Rightarrow>
                              (w3, if tx_rollback (tx w3) then RetFalse else RetTrue)))))"

subsection \<open>Permission check of stored items\<close>

text \<open>
  \<open>Transact.prototype._checkTransactionFields\<close>. The two maps of recombined fields grow over
  the items. An element of \<open>items\<close> that is \<open>null\<close>, or has no \<open>collection\<close>, makes the
  function throw a TypeError when it is reached; so does an update item without \<open>update\<close> or
  \<open>inverse\<close>. A permission check that throws counts as a refusal.
\<close>

definition refused :: "bool option \<Rightarrow> bool" where
  "refused r = (case r of None \<Rightarrow> True | Some b \<Rightarrow> \<not> b)"

definition checkItem ::
  "env \<Rightarrow> config \<Rightarrow> store \<Rightarrow> string \<Rightarrow> item \<Rightarrow> modifier \<times> modifier \<times> bool \<Rightarrow>
   error + modifier \<times> modifier \<times> bool" where
  "checkItem e cfg st txid v acc =
     (case acc of (recombinedUpdateFields, recombinedInverseFields, fail) \<Rightarrow>
      (case (case (i_action v, i_doc v, i_newDoc v) of
              (Remove, Some d, _) \<Rightarrow>
                if fld d ''transaction_id'' = JStr txid then Inr (JObj d)
                else storeFindOne (i_collection v) (ById (i_id v)) st
            | (Insert, _, Some d) \<Rightarrow>
                if fld d ''transaction_id'' = JStr txid then Inr (JObj d)
                else storeFindOne (i_collection v) (ById (i_id v)) st
            | _ \<Rightarrow> storeFindOne (i_collection v) (ById (i_id v)) st) of
        Inl err \<Rightarrow> Inl err
      | Inr d \<Rightarrow>
          if \<not> isServer e \<and> \<not> truthy d then Inr acc
          else if i_action v = Update
          then
            (case i_update v of
               None \<Rightarrow> Inl TypeError
             | Some details \<Rightarrow>
                 (case unpackageForUpdate e (snd details) of
                    Inl err \<Rightarrow> Inl err
                  | Inr u \<Rightarrow>
                      (case i_inverse v of
                         None \<Rightarrow> Inl TypeError
                       | Some inverseDetails \<Rightarrow>
                           (case unpackageForUpdate e (snd inverseDetails) of
                              Inl err \<Rightarrow> Inl err
                            | Inr i \<Rightarrow>
                                (let ru = AList.update (fst details) u recombinedUpdateFields;
                                     ri = AList.update (fst inverseDetails) i recombinedInverseFields
                                 in Inr (ru, ri,
                                      (if i_noCheck v then fail
                                       else (refused (permissionCheck cfg ''update'' (i_collection v) st d ru)
                                             \<or> refused (permissionCheck cfg ''update'' (i_collection v) st d ri)))))))))
          else Inr (recombinedUpdateFields, recombinedInverseFields,
                 (if i_noCheck v then fail
                  else refused (permissionCheck cfg
                         (if i_action v = Insert then ''insert'' else ''remove'')
                         (i_collection v) st d [])))))"

fun checkLoop ::
  "env \<Rightarrow> config \<Rightarrow> store \<Rightarrow> string \<Rightarrow> stored_item list \<Rightarrow> modifier \<times> modifier \<times> bool \<Rightarrow>
   error + bool" where
  "checkLoop e cfg st txid [] (ru, ri, fail) = Inr (\<not> fail)"
| "checkLoop e cfg st txid (v # rest) (ru, ri, fail) =
     (if fail then checkLoop e cfg st txid rest (ru, ri, fail)
      else (case v of
              Item it \<Rightarrow>
                (case checkItem e cfg st txid it (ru, ri, fail) of
                   Inl err \<Rightarrow> Inl err
                 | Inr acc \<Rightarrow> checkLoop e cfg st txid rest acc)
            | _ \<Rightarrow> Inl TypeError))"

definition checkTransactionFields ::
  "env \<Rightarrow> config \<Rightarrow> store \<Rightarrow> items_field \<Rightarrow> string \<Rightarrow> error + bool" where
  "checkTransactionFields e cfg st its txid =
     (case its of
        ItemsArray (v # rest) \<Rightarrow> checkLoop e cfg st txid (v # rest) ([], [], False)
      | _ \<Rightarrow> Inr False)"

section \<open>Undo and redo\<close>

text \<open>
  \<open>Transactions.find(selector, {sort: {key: -1}, limit: 1}).fetch()[0]\<close>: of the records
  that match, one with the greatest key; the first such in the store's order.
\<close>

fun latestBy :: "(txrecord \<Rightarrow> nat) \<Rightarrow> txrecord list \<Rightarrow> txrecord option \<Rightarrow> txrecord option" where
  "latestBy key [] best = best"
| "latestBy key (t # ts) best =
     latestBy key ts
       (case best of
          None \<Rightarrow> Some t
        | Some b \<Rightarrow> if key b < key t then Some t else Some b)"

text \<open>
  The selector of \<open>_meteorTransactionsUndo\<close>:
  \<open>{$or: [{undone: null}, {undone: {$exists: false}}], expired: {$exists: false}, state: "done"}\<close>,
  with \<open>{_id: txid}\<close> when \<open>txid\<close> is given (and not empty), \<open>{user_id: Meteor.userId()}\<close>
  and the sort by \<open>lastModified\<close> otherwise.
\<close>

definition undoEligible :: "txrecord \<Rightarrow> bool" where
  "undoEligible t = (tr_undone t = None \<and> \<not> tr_expired t \<and> tr_state t = Done)"

definition given :: "string option \<Rightarrow> bool" where
  "given txid = (case txid of None \<Rightarrow> False | Some t \<Rightarrow> t \<noteq> [])"

definition selectUndo :: "env \<Rightarrow> store \<Rightarrow> string option \<Rightarrow> txrecord option" where
  "selectUndo e st txid =
     (if given txid
      then find (\<lambda>t. Some (tr_id t) = txid \<and> undoEligible t) (Transactions st)
      else latestBy tr_lastModified
             (filter (\<lambda>t. tr_user_id t = userId e \<and> undoEligible t) (Transactions st)) None)"

text \<open>
  The first loop of \<open>_meteorTransactionsUndo\<close>, over \<open>lastTransaction.items.reverse()\<close>: it
  checks the store and fills \<open>queuedItems\<close>; once \<open>expired\<close> is set no item does anything.
\<close>

definition countById :: "string \<Rightarrow> jvalue \<Rightarrow> store \<Rightarrow> error + nat" where
  "countById c ident st =
     (case map_of (collectionIndex st) c of
        None \<Rightarrow> Inl TypeError
      | Some docs \<Rightarrow>
          Inr (case ident of JStr x \<Rightarrow> length (coll_find docs (ById x)) | _ \<Rightarrow> 0))"

definition undoScanItem ::
  "env \<Rightarrow> store \<Rightarrow> string \<Rightarrow> item \<Rightarrow> bool \<times> op list \<Rightarrow> error + bool \<times> op list" where
  "undoScanItem e st txid ob acc =
     (case acc of (expired, queuedItems) \<Rightarrow>
      if expired then Inr acc
      else
        (case i_action ob of
           Remove \<Rightarrow>
             (case i_doc ob of
                Some d \<Rightarrow>
                  (case countById (i_collection ob) (fld d ''_id'') st of
                     Inl err \<Rightarrow> Inl err
                   | Inr n \<Rightarrow>
                       if n \<noteq> 0 then Inr (True, queuedItems)
                       else Inr (expired, queuedItems @ [OpInsert (i_collection ob) d]))
              | None \<Rightarrow>
                  Inr (expired, queuedItems @
                    [OpUpdate (i_collection ob) (ById (i_id ob))
                       [(''$unset'', [(''deleted'', JNum 1), (''transaction_id'', JStr txid)])] ]))
         | Update \<Rightarrow>
             (case i_inverse ob of
                Some (command, data) \<Rightarrow>
                  if command \<noteq> []
                  then (case unpackageForUpdate e data of
                          Inl err \<Rightarrow> Inl err
                        | Inr m \<Rightarrow>
                            Inr (expired, queuedItems @
                              [OpUpdate (i_collection ob) (ById (i_id ob)) [(command, m)] ]))
                  else Inr acc
              | None \<Rightarrow> Inr acc)
         | Insert \<Rightarrow>
             (case storeFindOne (i_collection ob) (ByIdOtherTx (i_id ob) txid) st of
                Inl err \<Rightarrow> Inl err
              | Inr found \<Rightarrow>
                  Inr (truthy found,
                       queuedItems @ [OpRemove (i_collection ob) (ByIdAndTx (i_id ob) (Some txid))]))))"

fun undoScan ::
  "env \<Rightarrow> store \<Rightarrow> string \<Rightarrow> stored_item list \<Rightarrow> bool \<times> op list \<Rightarrow> error + bool \<times> op list" where
  "undoScan e st txid [] acc = Inr acc"
| "undoScan e st txid (v # rest) acc =
     (case v of
        Item ob \<Rightarrow>
          (case undoScanItem e st txid ob acc of
             Inl err \<Rightarrow> Inl err
           | Inr acc' \<Rightarrow> undoScan e st txid rest acc')
      | StateOnly s \<Rightarrow> undoScan e st txid rest acc
      | NullItem \<Rightarrow> Inl TypeError)"

text \<open>
  The second loop, over \<open>queuedItems\<close> from the first to the last: a write that throws is
  skipped, one that succeeds marks its item with \<open>_changeItemState\<close>, whose own failure is
  not caught. \<open>indexOf\<close> gives the index of the item for a position in the queue:
  \<open>(queuedItems.length - 1) - index\<close> in undo (\<open>undoIndex\<close>), \<open>index\<close> in redo.
\<close>

fun processQueue ::
  "env \<Rightarrow> string \<Rightarrow> tstate \<Rightarrow> (nat \<Rightarrow> nat) \<Rightarrow> op list \<Rightarrow> nat \<Rightarrow> store \<Rightarrow>
   store \<times> error option" where
  "processQueue e txid s indexOf [] index st = (st, None)"
| "processQueue e txid s indexOf (queuedItem # rest) index st =
     (case execOp e queuedItem st of
        Inl err \<Rightarrow> processQueue e txid s indexOf rest (Suc index) st
      | Inr st1 \<Rightarrow>
          (case changeItemState (Some txid) (indexOf index) s st1 of
             Inl err \<Rightarrow> (st1, Some err)
           | Inr st2 \<Rightarrow> processQueue e txid s indexOf rest (Suc index) st2))"

definition undoIndex :: "nat \<Rightarrow> nat \<Rightarrow> nat" where
  "undoIndex n index = (n - 1) - index"

definition markExpired :: "string \<Rightarrow> store \<Rightarrow> store" where
  "markExpired txid st = updateTransaction (Some txid) (\<lambda>t. t\<lparr>tr_expired := True\<rparr>) st"

text \<open>
  What a method gives back: the store after it, and the value \<open>expired\<close> it returns,
  \<open>undefined\<close> for a user who is not logged in, or the exception that leaves it. A write
  made before an exception stays. \<open>undoChecked\<close> is the part of the method inside
  \<open>if (tx._checkTransactionFields(...))\<close>: the scan, the queue and the update of the record.
\<close>

definition itemsOf :: "items_field \<Rightarrow> stored_item list" where
  "itemsOf its = (case its of ItemsArray xs \<Rightarrow> xs | _ \<Rightarrow> [])"

definition undoChecked :: "env \<Rightarrow> store \<Rightarrow> string \<Rightarrow> stored_item list \<Rightarrow> store \<times> ret" where
  "undoChecked e st txid xs =
     (case undoScan e st txid (rev xs) (False, []) of
        Inl err \<Rightarrow> (st, RetThrow err)
      | Inr (expired, queuedItems) \<Rightarrow>
          if expired then (markExpired txid st, RetTrue)
          else
            (case processQueue e txid Undone (undoIndex (length queuedItems)) queuedItems 0 st of
               (st1, Some err) \<Rightarrow> (st1, RetThrow err)
             | (st1, None) \<Rightarrow>
                 (updateTransaction (Some txid)
                    (\<lambda>t. t\<lparr>tr_undone := Some (now e), tr_state := Undone\<rparr>) st1,
                  RetFalse)))"

definition meteorTransactionsUndo ::
  "env \<Rightarrow> config \<Rightarrow> string option \<Rightarrow> store \<Rightarrow> store \<times> ret" where
  "meteorTransactionsUndo e cfg txid st =
     (if requireUser cfg \<and> userId e = None then (st, RetUndefined)
      else
        case selectUndo e st txid of
          None \<Rightarrow> (st, RetFalse)
        | Some lastTransaction \<Rightarrow>
            if tr_items lastTransaction = ItemsUndefined
            then (removeTransaction (Some (tr_id lastTransaction)) st, RetFalse)
            else
              (case checkTransactionFields e cfg st (tr_items lastTransaction)
                      (tr_id lastTransaction) of
                 Inl err \<Rightarrow> (st, RetThrow err)
               | Inr allowed \<Rightarrow>
                   if allowed
                   then undoChecked e st (tr_id lastTransaction) (itemsOf (tr_items lastTransaction))
                   else (markExpired (tr_id lastTransaction) st, RetTrue)))"

text \<open>
  The selector of \<open>_meteorTransactionsRedo\<close>:
  \<open>{undone: {$exists: true, $ne: null}, expired: {$exists: false}}\<close>, by \<open>_id\<close> or by user with
  the sort by \<open>undone\<close>.
\<close>

definition redoEligible :: "txrecord \<Rightarrow> bool" where
  "redoEligible t = (tr_undone t \<noteq> None \<and> \<not> tr_expired t)"

definition selectRedo :: "env \<Rightarrow> store \<Rightarrow> string option \<Rightarrow> txrecord option" where
  "selectRedo e st txid =
     (if given txid
      then find (\<lambda>t. Some (tr_id t) = txid \<and> redoEligible t) (Transactions st)
      else latestBy (\<lambda>t. case tr_undone t of None \<Rightarrow> 0 | Some d \<Rightarrow> d)
             (filter (\<lambda>t. tr_user_id t = userId e \<and> redoEligible t) (Transactions st)) None)"

text \<open>
  The first loop of \<open>_meteorTransactionsRedo\<close>, over \<open>lastUndo.items\<close>: removes and updates
  are queued whatever \<open>expired\<close> is, inserts only while it is not set.
\<close>

definition redoScanItem ::
  "env \<Rightarrow> store \<Rightarrow> string \<Rightarrow> item \<Rightarrow> bool \<times> op list \<Rightarrow> error + bool \<times> op list" where
  "redoScanItem e st txid ob acc =
     (case acc of (expired, queuedItems) \<Rightarrow>
        (case i_action ob of
           Remove \<Rightarrow>
             (case i_doc ob of
                Some d \<Rightarrow>
                  Inr (expired, queuedItems @ [OpRemove (i_collection ob) (ById (i_id ob))])
              | None \<Rightarrow>
                  Inr (expired, queuedItems @
                    [OpUpdate (i_collection ob) (ById (i_id ob))
                       [(''$set'', [(''deleted'', JDate (now e)), (''transaction_id'', JStr txid)])] ]))
         | Update \<Rightarrow>
             (case i_update ob of
                Some (command, data) \<Rightarrow>
                  if command \<noteq> []
                  then (case unpackageForUpdate e data of
                          Inl err \<Rightarrow> Inl err
                        | Inr m \<Rightarrow>
                            Inr (expired, queuedItems @
                              [OpUpdate (i_collection ob) (ById (i_id ob)) [(command, m)] ]))
                  else Inr acc
              | None \<Rightarrow> Inr acc)
         | Insert \<Rightarrow>
             if expired then Inr acc
             else
               (case countById (i_collection ob) (JStr (i_id ob)) st of
                  Inl err \<Rightarrow> Inl err
                | Inr n \<Rightarrow>
                    if n = 0
                    then (case i_newDoc ob of
                            None \<Rightarrow> Inl TypeError
                          | Some d \<Rightarrow>
                              Inr (expired, queuedItems @
                                [OpInsert (i_collection ob)
                                   (extendObj d [(''transaction_id'', JStr txid),
                                              (''_id'', JStr (i_id ob))])]))
                    else Inr (True, queuedItems))))"

fun redoScan ::
  "env \<Rightarrow> store \<Rightarrow> string \<Rightarrow> stored_item list \<Rightarrow> bool \<times> op list \<Rightarrow> error + bool \<times> op list" where
  "redoScan e st txid [] acc = Inr acc"
| "redoScan e st txid (v # rest) acc =
     (case v of
        Item ob \<Rightarrow>
          (case redoScanItem e st txid ob acc of
             Inl err \<Rightarrow> Inl err
           | Inr acc' \<Rightarrow> redoScan e st txid rest acc')
      | StateOnly s \<Rightarrow> redoScan e st txid rest acc
      | NullItem \<Rightarrow> Inl TypeError)"

definition redoChecked :: "env \<Rightarrow> store \<Rightarrow> string \<Rightarrow> stored_item list \<Rightarrow> store \<times> ret" where
  "redoChecked e st txid xs =
     (case redoScan e st txid xs (False, []) of
        Inl err \<Rightarrow> (st, RetThrow err)
      | Inr (expired, queuedItems) \<Rightarrow>
          if expired then (markExpired txid st, RetTrue)
          else
            (case processQueue e txid Done (\<lambda>index. index) queuedItems 0 st of
               (st1, Some err) \<Rightarrow> (st1, RetThrow err)
             | (st1, None) \<Rightarrow>
                 (updateTransaction (Some txid)
                    (\<lambda>t. t\<lparr>tr_undone := None, tr_state := Done\<rparr>) st1,
                  RetFalse)))"

definition meteorTransactionsRedo ::
  "env \<Rightarrow> config \<Rightarrow> string option \<Rightarrow> store \<Rightarrow> store \<times> ret" where
  "meteorTransactionsRedo e cfg txid st =
     (if requireUser cfg \<and> userId e = None then (st, RetUndefined)
      else
        case selectRedo e st txid of
          None \<Rightarrow> (st, RetFalse)
        | Some lastUndo \<Rightarrow>
            if tr_items lastUndo = ItemsUndefined then (st, RetFalse)
            else
              (case checkTransactionFields e cfg st (tr_items lastUndo) (tr_id lastUndo) of
                 Inl err \<Rightarrow> (st, RetThrow err)
               | Inr allowed \<Rightarrow>
                   if allowed
                   then redoChecked e st (tr_id lastUndo) (itemsOf (tr_items lastUndo))
                   else (markExpired (tr_id lastUndo) st, RetTrue)))"

section \<open>Self repair at startup\<close>

text \<open>
  The handler that the server file registers with \<open>Meteor.startup\<close>: a \<open>switch\<close> on
  \<open>tx.selfRepairMode\<close> whose two cases hold only \<open>break\<close>.
\<close>

definition selfRepair :: "config \<Rightarrow> store \<Rightarrow> store" where
  "selfRepair cfg st =
     (if selfRepairMode cfg = ''complete'' then st
      else if selfRepairMode cfg = ''rollback'' then st
      else st)"

section \<open>Notions the properties are stated with\<close>

text \<open>
  A value that the storage form can hold: not \<open>undefined\<close>, not \<open>null\<close>, and, when it is an
  object or an array, one that \<open>JSON.parse\<close> gives back from its \<open>JSON.stringify\<close> text.
\<close>

definition storable :: "env \<Rightarrow> jvalue \<Rightarrow> bool" where
  "storable e v =
     (v \<noteq> JUndefined \<and> v \<noteq> JNull
      \<and> (isObject v \<longrightarrow> JSON_stringify e v \<noteq> []
                        \<and> JSON_parse e (JStr (JSON_stringify e v)) = Some v))"




text \<open>
  For undo and redo: the write that reverses a stored item, and the write that repeats
  it. The first is the reinsertion of a hard-deleted document, the clearing of the
  \<open>deleted\<close> mark, the stored inverse of an update, or the removal of an inserted document
  that still carries the transaction's id; the second is the removal, the mark, the stored
  update, or the insertion again. An update whose stored command is missing, empty or
  cannot be unpackaged has none.
\<close>

definition inverseAction :: "env \<Rightarrow> string \<Rightarrow> stored_item \<Rightarrow> op option" where
  "inverseAction e txid v =
     (case v of
        Item ob \<Rightarrow>
          (case i_action ob of
             Remove \<Rightarrow>
               (case i_doc ob of
                  Some d \<Rightarrow> Some (OpInsert (i_collection ob) d)
                | None \<Rightarrow>
                    Some (OpUpdate (i_collection ob) (ById (i_id ob))
                      [(''$unset'', [(''deleted'', JNum 1), (''transaction_id'', JStr txid)])]))
           | Update \<Rightarrow>
               (case i_inverse ob of
                  None \<Rightarrow> None
                | Some (command, data) \<Rightarrow>
                    (case unpackageForUpdate e data of
                       Inl err \<Rightarrow> None
                     | Inr m \<Rightarrow>
                         if command = [] then None
                         else Some (OpUpdate (i_collection ob) (ById (i_id ob)) [(command, m)])))
           | Insert \<Rightarrow> Some (OpRemove (i_collection ob) (ByIdAndTx (i_id ob) (Some txid))))
      | _ \<Rightarrow> None)"

definition forwardAction :: "env \<Rightarrow> string \<Rightarrow> stored_item \<Rightarrow> op option" where
  "forwardAction e txid v =
     (case v of
        Item ob \<Rightarrow>
          (case i_action ob of
             Remove \<Rightarrow>
               (case i_doc ob of
                  Some d \<Rightarrow> Some (OpRemove (i_collection ob) (ById (i_id ob)))
                | None \<Rightarrow>
                    Some (OpUpdate (i_collection ob) (ById (i_id ob))
                      [(''$set'', [(''deleted'', JDate (now e)), (''transaction_id'', JStr txid)])]))
           | Update \<Rightarrow>
               (case i_update ob of
                  None \<Rightarrow> None
                | Some (command, data) \<Rightarrow>
                    (case unpackageForUpdate e data of
                       Inl err \<Rightarrow> None
                     | Inr m \<Rightarrow>
                         if command = [] then None
                         else Some (OpUpdate (i_collection ob) (ById (i_id ob)) [(command, m)])))
           | Insert \<Rightarrow>
               (case i_newDoc ob of
                  None \<Rightarrow> None
                | Some d \<Rightarrow>
                    Some (OpInsert (i_collection ob)
                      (extendObj d [(''transaction_id'', JStr txid), (''_id'', JStr (i_id ob))]))))
      | _ \<Rightarrow> None)"

text \<open>The write that \<open>rollback\<close> makes for an item, if it makes one.\<close>

definition rollbackWrite :: "env \<Rightarrow> string option \<Rightarrow> item \<Rightarrow> op option" where
  "rollbackWrite e txid ob = (case rollbackAction e txid ob of Inl err \<Rightarrow> None | Inr a \<Rightarrow> a)"

text \<open>
  The application collections after a list of writes made one after the other from the
  first to the last, a write that throws being skipped.
\<close>

fun applyEach :: "env \<Rightarrow> op list \<Rightarrow> store \<Rightarrow> store" where
  "applyEach e [] st = st"
| "applyEach e (w # ws) st =
     (case execOp e w st of
        Inl err \<Rightarrow> applyEach e ws st
      | Inr st' \<Rightarrow> applyEach e ws st')"

section \<open>Example data\<close>

text \<open>
  A platform and settings for the examples: a logged-in user on the server, JSON functions
  that know the one object \<open>{bar: 1}\<close> the examples serialize, a store that knows \<open>$mul\<close> on
  numbers besides the six commands (a missing field becomes 0), a permission check that
  allows everything.
\<close>

definition mul :: "string \<Rightarrow> string \<times> jvalue \<Rightarrow> obj \<Rightarrow> error + obj" where
  "mul command kv d =
     (if command = ''$mul''
      then (case (map_of d (fst kv), snd kv) of
              (None, JNum n) \<Rightarrow> Inr (AList.update (fst kv) (JNum 0) d)
            | (Some (JNum m), JNum n) \<Rightarrow> Inr (AList.update (fst kv) (JNum (m * n)) d)
            | _ \<Rightarrow> Inl MongoError)
      else Inl MongoError)"

definition env0 :: env where
  "env0 = \<lparr> JSON_stringify = (\<lambda>v. ''{\"bar\":1}''),
            JSON_parse = (\<lambda>j. if j = JStr ''{\"bar\":1}'' then Some (JObj [(''bar'', JNum 1)]) else None),
            userId = Some ''u1'', Random_id = ''T1'', now = 100, isServer = True,
            otherCommand = mul \<rparr>"

definition cfg0 :: config where
  "cfg0 = \<lparr> requireUser = True, removeRolledBackTransactions = False,
            selfRepairMode = ''complete'',
            checkPermission = (\<lambda>act c docs d m. Some True),
            makeContext = (\<lambda>act c d m. []) \<rparr>"

definition cleanTx :: transact where
  "cleanTx = \<lparr> tx_transaction_id = None, tx_autoTransaction = False, tx_items = [],
               tx_startAttempts = 0, tx_rollback = False, tx_rollbackReason = [],
               tx_lastTransactionData = None, tx_context = [], tx_description = [] \<rparr>"

definition emptyStore :: store where
  "emptyStore = \<lparr> collectionIndex = [(''foo'', [])], Transactions = [] \<rparr>"

definition world0 :: world where
  "world0 = \<lparr> tx = cleanTx, db = emptyStore, called = [] \<rparr>"

text \<open>An executor that cannot be reached: the call reports an error to its function.\<close>

definition offline :: meteorCall where
  "offline txid description its context w = (w, CallbackErr (MeteorError ''no-connection''))"

text \<open>\<open>tx.start('first')\<close>, and \<open>tx.start('first'); tx.start('second')\<close>.\<close>

definition startedOnce :: world where
  "startedOnce = fst (start env0 cfg0 (Some ''first'') world0)"

definition startedTwice :: world where
  "startedTwice = fst (start env0 cfg0 (Some ''second'') startedOnce)"

text \<open>
  The state of the repository's own recovery test: a transaction that inserted a document
  of \<open>foo\<close> instantly and queued an update of it, cut off after the insert. The record is
  \<open>pending\<close>, the insert is \<open>done\<close>, the update is \<open>pending\<close>.
\<close>

definition fooInsert :: item where
  "fooInsert =
     createItem Insert ''foo'' ''f1''
       (Some \<lparr> f_newDoc = Some [(''state'', JStr ''initial''), (''_id'', JStr ''f1''),
                                 (''transaction_id'', JStr ''T1'')],
               f_update = None, f_inverse = None, f_hardDelete = False, f_doc = None \<rparr>)
       True False"

definition fooUpdate :: item where
  "fooUpdate =
     createItem Update ''foo'' ''f1''
       (Some \<lparr> f_newDoc = None,
               f_update = Some (''$set'', [(''state'', JStr ''final'')]),
               f_inverse = Some (''$set'', [(''state'', JStr ''initial'')]),
               f_hardDelete = False, f_doc = None \<rparr>)
       False False"

definition interruptedStore :: store where
  "interruptedStore =
     \<lparr> collectionIndex =
         [(''foo'', [ [(''state'', JStr ''initial''), (''_id'', JStr ''f1''),
                     (''transaction_id'', JStr ''T1'')] ])],
       Transactions =
         [\<lparr> tr_id = ''T1'', tr_user_id = Some ''u1'', tr_lastModified = 10,
            tr_description = ''insert foo'', tr_context = [], tr_state = Pending,
            tr_items = ItemsArray [Item fooInsert, Item fooUpdate],
            tr_undone = None, tr_expired = False \<rparr>] \<rparr>"

text \<open>A prior document for the inverse of an update.\<close>

definition priorDoc :: jvalue where
  "priorDoc = JObj [(''_id'', JStr ''p1''), (''a'', JNum 1)]"

text \<open>A store with one document of \<open>foo\<close>, and an open transaction over it.\<close>

definition fooStore :: store where
  "fooStore =
     \<lparr> collectionIndex = [(''foo'', [ [(''_id'', JStr ''f1''), (''n'', JNum 3)] ])],
       Transactions = [] \<rparr>"

definition openWorld :: world where
  "openWorld = startedOnce\<lparr>db := fooStore\<rparr>"

text \<open>
  A transaction that makes two instant updates of the same field and is then cancelled:
  \<open>n\<close> is 1 before, 2 after the first update, 3 after the second.
\<close>

definition instantly :: "options option" where
  "instantly = Some \<lparr> o_instant = True, o_overridePermissionCheck = False,
                       o_inverse = None, o_context = None \<rparr>"

definition counterStore :: store where
  "counterStore =
     \<lparr> collectionIndex = [(''foo'', [ [(''_id'', JStr ''f1''), (''n'', JNum 1)] ])],
       Transactions = [] \<rparr>"

definition twoInstantUpdates :: world where
  "twoInstantUpdates =
     cancel
       (fst (update env0 cfg0 offline ''foo'' ''f1'' [(''$set'', [(''n'', JNum 3)])] instantly
          (fst (update env0 cfg0 offline ''foo'' ''f1'' [(''$set'', [(''n'', JNum 2)])] instantly
             (startedOnce\<lparr>db := counterStore\<rparr>)))))"

text \<open>
  A transaction that sets, with one instant update, the field \<open>a\<close> that the document has
  and the field \<open>b\<close> that it does not have, and is then cancelled.
\<close>

definition priorStore :: store where
  "priorStore =
     \<lparr> collectionIndex = [(''foo'', [ [(''_id'', JStr ''p1''), (''a'', JNum 1)] ])],
       Transactions = [] \<rparr>"

definition mixedUpdate :: world where
  "mixedUpdate =
     cancel
       (fst (update env0 cfg0 offline ''foo'' ''p1''
               [(''$set'', [(''a'', JNum 2), (''b'', JNum 3)])] instantly
               (startedOnce\<lparr>db := priorStore\<rparr>)))"

text \<open>
  \<open>tx.start('first'); tx.commit(callback)\<close>, a commit with nothing queued; and then
  \<open>tx.start('second'); tx.update(foo, "f1", {$set: {n: 4}})\<close>.
\<close>

definition afterEmptyCommit :: world where
  "afterEmptyCommit = fst (commit env0 cfg0 offline ArgFunction ArgUndefined openWorld)"

definition secondAttempt :: world where
  "secondAttempt =
     fst (update env0 cfg0 offline ''foo'' ''f1'' [(''$set'', [(''n'', JNum 4)])] None
            (fst (start env0 cfg0 (Some ''second'') afterEmptyCommit)))"

text \<open>
  A committed transaction that inserted the document \<open>a1\<close> of \<open>foo\<close> with \<open>v = 1\<close> and
  then set \<open>v\<close> to 2.
\<close>

definition insertA :: item where
  "insertA =
     (createItem Insert ''foo'' ''a1''
        (Some \<lparr> f_newDoc = Some [(''v'', JNum 1), (''_id'', JStr ''a1''),
                                  (''transaction_id'', JStr ''T1'')],
                f_update = None, f_inverse = None, f_hardDelete = False, f_doc = None \<rparr>)
        False False) \<lparr>i_state := Done\<rparr>"

definition updateA :: item where
  "updateA =
     (createItem Update ''foo'' ''a1''
        (Some \<lparr> f_newDoc = None,
                f_update = Some (''$set'', [(''v'', JNum 2)]),
                f_inverse = Some (''$set'', [(''v'', JNum 1)]),
                f_hardDelete = False, f_doc = None \<rparr>)
        False False) \<lparr>i_state := Done\<rparr>"

definition recordA :: txrecord where
  "recordA =
     \<lparr> tr_id = ''T1'', tr_user_id = Some ''u1'', tr_lastModified = 10,
       tr_description = ''add foo'', tr_context = [], tr_state = Done,
       tr_items = ItemsArray [Item insertA, Item updateA],
       tr_undone = None, tr_expired = False \<rparr>"

definition committedStore :: store where
  "committedStore =
     \<lparr> collectionIndex =
         [(''foo'', [ [(''v'', JNum 2), (''_id'', JStr ''a1''), (''transaction_id'', JStr ''T1'')] ])],
       Transactions = [recordA] \<rparr>"

definition undoneStore :: store where
  "undoneStore = fst (meteorTransactionsUndo env0 cfg0 (Some ''T1'') committedStore)"

text \<open>
  Staleness: the transaction \<open>T1\<close> inserted the document \<open>x1\<close>, and the later transaction
  \<open>T2\<close> updated it, so that the document carries the id of \<open>T2\<close>.
\<close>

definition insertX :: item where
  "insertX =
     (createItem Insert ''foo'' ''x1''
        (Some \<lparr> f_newDoc = Some [(''v'', JNum 1), (''_id'', JStr ''x1''),
                                  (''transaction_id'', JStr ''T1'')],
                f_update = None, f_inverse = None, f_hardDelete = False, f_doc = None \<rparr>)
        False False) \<lparr>i_state := Done\<rparr>"

definition updateX :: item where
  "updateX =
     (createItem Update ''foo'' ''x1''
        (Some \<lparr> f_newDoc = None,
                f_update = Some (''$set'', [(''v'', JNum 2)]),
                f_inverse = Some (''$set'', [(''v'', JNum 1)]),
                f_hardDelete = False, f_doc = None \<rparr>)
        False False) \<lparr>i_state := Done\<rparr>"

definition recordT1 :: txrecord where
  "recordT1 =
     \<lparr> tr_id = ''T1'', tr_user_id = Some ''u1'', tr_lastModified = 10,
       tr_description = ''add foo'', tr_context = [], tr_state = Done,
       tr_items = ItemsArray [Item insertX], tr_undone = None, tr_expired = False \<rparr>"

definition recordT2 :: txrecord where
  "recordT2 =
     \<lparr> tr_id = ''T2'', tr_user_id = Some ''u1'', tr_lastModified = 20,
       tr_description = ''update foo'', tr_context = [], tr_state = Done,
       tr_items = ItemsArray [Item updateX], tr_undone = None, tr_expired = False \<rparr>"

definition staleStore :: store where
  "staleStore =
     \<lparr> collectionIndex =
         [(''foo'', [ [(''v'', JNum 2), (''_id'', JStr ''x1''), (''transaction_id'', JStr ''T2'')] ])],
       Transactions = [recordT1, recordT2] \<rparr>"

text \<open>
  The same for redo: \<open>T1\<close> has been undone, and a document with the id of the one it
  inserted is in the collection again.
\<close>

definition blockedStore :: store where
  "blockedStore =
     \<lparr> collectionIndex =
         [(''foo'', [ [(''v'', JNum 7), (''_id'', JStr ''x1''), (''transaction_id'', JStr ''T2'')] ])],
       Transactions = [recordT1 \<lparr>tr_state := Undone, tr_undone := Some 30\<rparr>] \<rparr>"

text \<open>Two committed transactions of the same user, each an update of its own document.\<close>

definition updateY :: item where
  "updateY =
     (createItem Update ''foo'' ''y1''
        (Some \<lparr> f_newDoc = None,
                f_update = Some (''$set'', [(''w'', JNum 2)]),
                f_inverse = Some (''$set'', [(''w'', JNum 1)]),
                f_hardDelete = False, f_doc = None \<rparr>)
        False False) \<lparr>i_state := Done\<rparr>"

definition twoDoneStore :: store where
  "twoDoneStore =
     \<lparr> collectionIndex =
         [(''foo'', [ [(''v'', JNum 2), (''_id'', JStr ''x1''), (''transaction_id'', JStr ''T1'')],
                     [(''w'', JNum 2), (''_id'', JStr ''y1''), (''transaction_id'', JStr ''T2'')] ])],
       Transactions =
         [recordT1 \<lparr>tr_items := ItemsArray [Item updateX]\<rparr>,
          recordT2 \<lparr>tr_items := ItemsArray [Item updateY]\<rparr>] \<rparr>"

definition afterFirstUndo :: store where
  "afterFirstUndo = fst (meteorTransactionsUndo env0 cfg0 None twoDoneStore)"

section \<open>Properties\<close>

subsection \<open>Writes made one after the other\<close>

lemma changeItemState_collectionIndex:
  "changeItemState txid index s st = Inr st' \<Longrightarrow> collectionIndex st' = collectionIndex st"
  by (auto simp: changeItemState_def updateTransaction_def split: option.splits sum.splits)

lemma execOp_cong:
  assumes "collectionIndex st = collectionIndex st'"
  shows "(case execOp e w st of Inl err \<Rightarrow> None | Inr s \<Rightarrow> Some (collectionIndex s))
       = (case execOp e w st' of Inl err \<Rightarrow> None | Inr s \<Rightarrow> Some (collectionIndex s))"
  using assms
  by (cases w)
     (auto simp: storeInsert_def storeUpdate_def storeRemove_def split: option.splits sum.splits)

lemma applyEach_cong:
  "collectionIndex st = collectionIndex st' \<Longrightarrow>
   collectionIndex (applyEach e ws st) = collectionIndex (applyEach e ws st')"
proof (induction ws arbitrary: st st')
  case Nil
  then show ?case by simp
next
  case (Cons w ws)
  note same = execOp_cong [OF Cons.prems, of e w]
  show ?case
  proof (cases "execOp e w st")
    case (Inl err)
    with same obtain err' where "execOp e w st' = Inl err'"
      by (cases "execOp e w st'") simp_all
    with Inl Cons.IH [OF Cons.prems] show ?thesis by simp
  next
    case (Inr sa)
    with same obtain sb where sb: "execOp e w st' = Inr sb" "collectionIndex sa = collectionIndex sb"
      by (cases "execOp e w st'") simp_all
    with Inr Cons.IH [OF sb(2)] show ?thesis by simp
  qed
qed

subsection \<open>Self repair at startup\<close>

text \<open>
  C6. At startup a pending transaction is to be completed under the policy \<open>complete\<close> and
  rolled back under \<open>rollback\<close>. The handler does neither: under both policies the store of
  the interrupted transaction is what it was, the record still \<open>pending\<close>, the queued
  update still not applied, the instant insert still in place.
\<close>

theorem selfRepair_leaves_interrupted_transaction:
  "selfRepair (cfg\<lparr>selfRepairMode := ''complete''\<rparr>) interruptedStore = interruptedStore
   \<and> selfRepair (cfg\<lparr>selfRepairMode := ''rollback''\<rparr>) interruptedStore = interruptedStore
   \<and> map tr_state (Transactions interruptedStore) = [Pending]"
  by (simp add: selfRepair_def interruptedStore_def)

subsection \<open>Storage form of an update map\<close>

text \<open>
  C7. Unpackaging the packaged form of an update map is to give the map back. For the map
  \<open>{a: null}\<close> it throws a TypeError instead: \<open>null\<close> is stored as it is, and
  \<open>_unpackageForUpdate\<close> reads \<open>val.value.json\<close> of it.
\<close>

theorem unpackage_of_packaged_null_throws:
  "unpackageForUpdate e (snd (packageForStorage e (''$set'', [(''a'', JNull)]))) = Inl TypeError"
  by (simp add: unpackageForUpdate_def packageForStorage_def packageValue_def unpackageValue_def)

text \<open>
  The repository's own test of the stored inverse: \<open>{$pull: {foo: {bar: 1}}}\<close> is stored with
  the inverse \<open>{command: '$addToSet', data: [{key: 'foo', value: {json: '{"bar":1}'}}]}\<close>.
\<close>

lemma stored_inverse_of_pull:
  "inverseFor None ''$pull'' existingDoc [(''foo'', JObj [(''bar'', JNum 1)])]
     = Inr (''$addToSet'', [(''foo'', JObj [(''bar'', JNum 1)])])
   \<and> packageForStorage env0 (''$addToSet'', [(''foo'', JObj [(''bar'', JNum 1)])])
     = (''$addToSet'', [(''foo'', JObj [(''json'', JStr ''{\"bar\":1}'')])])
   \<and> unpackageForUpdate env0 [(''foo'', JObj [(''json'', JStr ''{\"bar\":1}'')])]
     = Inr [(''foo'', JObj [(''bar'', JNum 1)])]"
  by (simp add: inverseFor_def inverseOperations_def packageForStorage_def packageValue_def
        unpackageForUpdate_def unpackageValue_def env0_def)

text \<open>
  For a map with distinct keys whose values are neither \<open>null\<close> nor \<open>undefined\<close>, and whose
  objects and arrays survive \<open>JSON.stringify\<close> and \<open>JSON.parse\<close>, the round trip does give
  the map back.
\<close>

lemma update_new_key:
  "k \<notin> fst ` set al \<Longrightarrow> AList.update k v al = al @ [(k, v)]"
  by (induction al) auto

lemma unpackage_packaged_value:
  "storable e v \<Longrightarrow> unpackageValue e (packageValue e v) = Inr v"
  by (cases v) (simp_all add: storable_def unpackageValue_def packageValue_def)

lemma unpackageLoop_packaged:
  assumes "distinct (map fst data)"
    and "fst ` set data \<inter> fst ` set acc = {}"
    and "\<forall>kv \<in> set data. storable e (snd kv)"
  shows "unpackageLoop e (map (\<lambda>(key, v). (key, packageValue e v)) data) acc = Inr (acc @ data)"
  using assms
proof (induction data arbitrary: acc)
  case Nil
  then show ?case by simp
next
  case (Cons kv data)
  obtain k v where kv: "kv = (k, v)" by (cases kv)
  from Cons.prems kv have new: "k \<notin> fst ` set acc" by auto
  from Cons.prems kv have st: "storable e v" by simp
  have step: "AList.update k v acc = acc @ [(k, v)]" by (rule update_new_key [OF new])
  from Cons.prems kv have d: "distinct (map fst data)"
    and i: "fst ` set data \<inter> fst ` set (acc @ [(k, v)]) = {}"
    and s: "\<forall>kv \<in> set data. storable e (snd kv)"
    by auto
  from Cons.IH [OF d i s] kv step unpackage_packaged_value [OF st]
  show ?case by simp
qed

lemma unpackage_package_roundtrip:
  assumes "distinct (map fst data)"
    and "\<forall>kv \<in> set data. storable e (snd kv)"
  shows "unpackageForUpdate e (snd (packageForStorage e (command, data))) = Inr data"
  using unpackageLoop_packaged [OF assms(1) _ assms(2), of "[]"]
  by (simp add: unpackageForUpdate_def packageForStorage_def)

subsection \<open>Inverse of an update command\<close>

text \<open>
  C4. The inverse of a \<open>$set\<close>, \<open>$unset\<close> or \<open>$inc\<close> command is to restore every key of the
  update map: \<open>$set\<close> to its prior value a key that the prior document had, \<open>$unset\<close> a key
  that it did not have. \<open>_inverseUsingSet\<close>, the inverse function of the three commands,
  does so for a map with one key. For a map with several keys it keeps one command, the one
  of the last key. With the prior document \<open>{_id: "p1", a: 1}\<close> and the map \<open>{a: 2, b: 3}\<close>
  it stores the former value 1 of \<open>a\<close> and then returns \<open>{$unset: {a: 1, b: ""}}\<close>: the
  inverse removes \<open>a\<close> instead of setting it to 1 again. An instant update with this map
  that is rolled back leaves the document without \<open>a\<close>.
\<close>

theorem inverse_of_mixed_map_unsets_present_key:
  "inverseOperations ''$set'' = Some inverseUsingSet
   \<and> inverseOperations ''$unset'' = Some inverseUsingSet
   \<and> inverseOperations ''$inc'' = Some inverseUsingSet
   \<and> storeFindOne ''foo'' (ById ''p1'') priorStore = Inr priorDoc
   \<and> inverseUsingSet priorDoc [(''a'', JNum 2)] = Inr (''$set'', [(''a'', JNum 1)])
   \<and> inverseUsingSet priorDoc [(''b'', JNum 3)] = Inr (''$unset'', [(''b'', JStr [])])
   \<and> inverseUsingSet priorDoc [(''a'', JNum 2), (''b'', JNum 3)]
       = Inr (''$unset'', [(''a'', JNum 1), (''b'', JStr [])])
   \<and> map_of (collectionIndex (db mixedUpdate)) ''foo''
       = Some [ [(''_id'', JStr ''p1''), (''a'', JNum 2), (''b'', JNum 3),
                 (''transaction_id'', JStr ''T1'')] ]
   \<and> map i_inverse (tx_items (tx mixedUpdate))
       = [Some (''$unset'', [(''a'', JNum 1), (''b'', JStr [])])]
   \<and> snd (rollback env0 cfg0 mixedUpdate) = None
   \<and> map_of (collectionIndex (db (fst (rollback env0 cfg0 mixedUpdate)))) ''foo''
       = Some [ [(''_id'', JStr ''p1''), (''transaction_id'', JStr ''T1'')] ]"
proof -
  have table: "inverseOperations ''$set'' = Some inverseUsingSet
     \<and> inverseOperations ''$unset'' = Some inverseUsingSet
     \<and> inverseOperations ''$inc'' = Some inverseUsingSet"
    by (simp add: inverseOperations_def)
  have run: "storeFindOne ''foo'' (ById ''p1'') priorStore = Inr priorDoc
     \<and> inverseUsingSet priorDoc [(''a'', JNum 2)] = Inr (''$set'', [(''a'', JNum 1)])
     \<and> inverseUsingSet priorDoc [(''b'', JNum 3)] = Inr (''$unset'', [(''b'', JStr [])])
     \<and> inverseUsingSet priorDoc [(''a'', JNum 2), (''b'', JNum 3)]
         = Inr (''$unset'', [(''a'', JNum 1), (''b'', JStr [])])
     \<and> map_of (collectionIndex (db mixedUpdate)) ''foo''
         = Some [ [(''_id'', JStr ''p1''), (''a'', JNum 2), (''b'', JNum 3),
                   (''transaction_id'', JStr ''T1'')] ]
     \<and> map i_inverse (tx_items (tx mixedUpdate))
         = [Some (''$unset'', [(''a'', JNum 1), (''b'', JStr [])])]
     \<and> snd (rollback env0 cfg0 mixedUpdate) = None
     \<and> map_of (collectionIndex (db (fst (rollback env0 cfg0 mixedUpdate)))) ''foo''
         = Some [ [(''_id'', JStr ''p1''), (''transaction_id'', JStr ''T1'')] ]"
    by code_simp
  from table run show ?thesis by simp
qed

subsection \<open>Commit of an empty transaction\<close>

lemma db_callback [simp]: "db (callback a b err res w) = db w"
  by (simp add: callback_def)

lemma db_multipleTransactionsOpen [simp]: "db (fst (multipleTransactionsOpen txid cb w)) = db w"
  by (simp add: multipleTransactionsOpen_def)

text \<open>
  \<open>commit\<close> of a transaction whose item list is empty leaves the store as it is, on every
  branch; and the function that writes a record before the commit, \<open>_recordTransaction\<close>,
  leaves the record of the open transaction with an \<open>items\<close> array that holds the item it was
  given.
\<close>

lemma commit_empty_db:
  "tx_items (tx w) = [] \<Longrightarrow> db (fst (commit e cfg call txid cb w)) = db w"
  by (simp add: commit_def Let_def split: option.splits)

lemma find_map_update:
  assumes "\<And>t. tr_id (f t) = tr_id t"
  shows "find (\<lambda>t. Some (tr_id t) = txid) (map (\<lambda>t. if Some (tr_id t) = txid then f t else t) ts)
         = map_option f (find (\<lambda>t. Some (tr_id t) = txid) ts)"
  using assms by (induction ts) auto

lemma findTransaction_updateTransaction:
  assumes "\<And>t. tr_id (f t) = tr_id t"
  shows "findTransaction (updateTransaction txid f st) txid = map_option f (findTransaction st txid)"
  using find_map_update [OF assms] by (simp add: findTransaction_def updateTransaction_def)

lemma addToSetItems_member:
  "addToSetItems it its = Inr its' \<Longrightarrow> \<exists>xs. its' = ItemsArray xs \<and> Item it \<in> set xs"
  by (auto simp: addToSetItems_def split: items_field.splits if_splits)

lemma find_append_new:
  "find P xs = None \<Longrightarrow> P x \<Longrightarrow> find P (xs @ [x]) = Some x"
  by (induction xs) (auto split: if_splits)

lemma recordTransaction_items:
  assumes r: "recordTransaction e cfg it w = Inr w'"
    and t: "tx_transaction_id (tx w) = Some t"
  shows "\<exists>r xs. findTransaction (db w') (Some t) = Some r \<and> tr_items r = ItemsArray xs
                 \<and> Item it \<in> set xs"
proof (cases "findTransaction (db w) (Some t)")
  case None
  let ?new = "\<lparr> tr_id = t, tr_user_id = userId e, tr_lastModified = now e,
                 tr_description = tx_description (tx w), tr_context = tx_context (tx w),
                 tr_state = Pending, tr_items = ItemsUndefined, tr_undone = None,
                 tr_expired = False \<rparr>"
  let ?st1 = "(db w)\<lparr>Transactions := Transactions (db w) @ [?new]\<rparr>"
  from None have f1: "findTransaction ?st1 (Some t) = Some ?new"
    by (simp add: findTransaction_def find_append_new)
  from r t None f1 have w': "w' = w\<lparr>db := updateTransaction (Some t) (\<lambda>t. t\<lparr>tr_items := ItemsArray [Item it]\<rparr>) ?st1\<rparr>"
    by (simp add: recordTransaction_def Let_def addToSetItems_def)
  have "findTransaction (db w') (Some t) = Some (?new\<lparr>tr_items := ItemsArray [Item it]\<rparr>)"
    unfolding w' using f1 by (simp add: findTransaction_updateTransaction)
  then show ?thesis by simp
next
  case (Some r0)
  from r t Some obtain its where a: "addToSetItems it (tr_items r0) = Inr its"
    and w': "w' = w\<lparr>db := updateTransaction (Some t) (\<lambda>t. t\<lparr>tr_items := its\<rparr>) (db w)\<rparr>"
    by (auto simp: recordTransaction_def Let_def split: sum.splits)
  have "findTransaction (db w') (Some t) = Some (r0\<lparr>tr_items := its\<rparr>)"
    unfolding w' using Some by (simp add: findTransaction_updateTransaction)
  with addToSetItems_member [OF a] show ?thesis by auto
qed

text \<open>
  On its branch for an empty item list \<open>commit\<close> writes nothing, and it resets nothing
  either: but for \<open>_lastTransactionData\<close> the \<open>tx\<close> object is what it was, the transaction
  still open.
\<close>

lemma commit_empty_keeps_transaction:
  assumes user: "\<not> (requireUser cfg \<and> userId e = None)"
    and "open": "tx_transaction_id (tx w) = Some cur"
    and empty: "tx_items (tx w) = []"
    and same: "\<forall>s. txid = ArgString s \<longrightarrow> s = cur"
    and single: "tx_startAttempts (tx w) \<le> 0 \<or> txid = ArgString cur \<or> txid = ArgNull"
  shows "tx (fst (commit e cfg call txid cb w))
         = (tx w)\<lparr>tx_lastTransactionData :=
                    Some \<lparr>ltd_transaction_id = Some cur, ltd_writes = None\<rparr>\<rparr>"
proof -
  have g0: "(requireUser cfg \<and> userId e = None) = False" using user by simp
  from single consider (none) "\<not> 0 < tx_startAttempts (tx w)"
    | (given) "txid = ArgString cur" | (forced) "txid = ArgNull"
    by force
  then show ?thesis
  proof cases
    case none
    with "open" empty same show ?thesis
      unfolding commit_def g0 by (cases txid) (simp_all add: Let_def)
  next
    case given
    with "open" empty show ?thesis
      unfolding commit_def g0 by (simp add: Let_def)
  next
    case forced
    with "open" empty show ?thesis
      unfolding commit_def g0 by (simp add: Let_def)
  qed
qed

text \<open>
  C8. A transaction with no items is never persisted: \<open>commit\<close> is to discard it without
  writing a record. \<open>commit\<close> writes no record, but it does not discard the transaction. After
  \<open>tx.start('first'); tx.commit(callback)\<close> the store is what it was and the call has
  returned \<open>true\<close>, yet the transaction \<open>T1\<close> is still open under its description. The
  next \<open>tx.start('second')\<close> returns \<open>false\<close>, the update that follows is queued in the
  transaction that was to be discarded, and \<open>tx.commit(callback)\<close> answers with the error
  \<open>multiple-transactions-open\<close>: the update is not made. The ways out of \<open>commit\<close> that
  end a transaction, the rollback and the answer of the executor, do reset the \<open>tx\<close> object:
  after the commit of a cancelled transaction none is open.
\<close>

theorem empty_commit_leaves_transaction_open:
  "tx_transaction_id (tx openWorld) = Some ''T1''
   \<and> tx_items (tx openWorld) = []
   \<and> snd (commit env0 cfg0 offline ArgFunction ArgUndefined openWorld) = RetTrue
   \<and> db afterEmptyCommit = fooStore
   \<and> tx_transaction_id (tx afterEmptyCommit) = Some ''T1''
   \<and> tx_description (tx afterEmptyCommit) = ''first''
   \<and> snd (start env0 cfg0 (Some ''second'') afterEmptyCommit) = RetFalse
   \<and> tx_description (tx secondAttempt) = ''first''
   \<and> map i_update (tx_items (tx secondAttempt)) = [Some (''$set'', [(''n'', JNum 4)])]
   \<and> snd (commit env0 cfg0 offline ArgFunction ArgUndefined secondAttempt) = RetUndefined
   \<and> called (fst (commit env0 cfg0 offline ArgFunction ArgUndefined secondAttempt))
       = [(Some (MeteorError ''multiple-transactions-open''), ResFalse)]
   \<and> db (fst (commit env0 cfg0 offline ArgFunction ArgUndefined secondAttempt)) = fooStore
   \<and> tx_transaction_id
         (tx (fst (commit env0 cfg0 offline ArgFunction ArgUndefined twoInstantUpdates))) = None"
  by code_simp

text \<open>
  C10 (as amended). For a user who may commit, \<open>commit\<close> on an open transaction with an
  empty item list, called with no transaction id other than the open one and with no
  earlier \<open>start\<close> left unanswered (or with the open id or \<open>null\<close> as its first argument),
  returns \<open>true\<close>, calls no callback and leaves the store as it is.
\<close>

theorem commit_of_empty_transaction:
  assumes user: "\<not> (requireUser cfg \<and> userId e = None)"
    and "open": "tx_transaction_id (tx w) = Some cur"
    and empty: "tx_items (tx w) = []"
    and same: "\<forall>s. txid = ArgString s \<longrightarrow> s = cur"
    and single: "tx_startAttempts (tx w) \<le> 0 \<or> txid = ArgString cur \<or> txid = ArgNull"
  shows "snd (commit e cfg call txid cb w) = RetTrue
         \<and> called (fst (commit e cfg call txid cb w)) = called w
         \<and> db (fst (commit e cfg call txid cb w)) = db w"
  using assms by (auto simp: commit_def Let_def split: jsarg.splits)

theorem commit_of_empty_transaction_witness:
  "\<not> (requireUser cfg0 \<and> userId env0 = None)
   \<and> tx_transaction_id (tx startedOnce) = Some ''T1''
   \<and> tx_items (tx startedOnce) = []
   \<and> tx_startAttempts (tx startedOnce) = 0
   \<and> snd (commit env0 cfg0 offline ArgFunction ArgUndefined startedOnce) = RetTrue
   \<and> called (fst (commit env0 cfg0 offline ArgFunction ArgUndefined startedOnce)) = []
   \<and> db (fst (commit env0 cfg0 offline ArgFunction ArgUndefined startedOnce)) = emptyStore"
  using commit_of_empty_transaction [of cfg0 env0 startedOnce "''T1''" ArgFunction offline ArgUndefined]
  by (simp add: startedOnce_def start_def env0_def cfg0_def world0_def cleanTx_def)

text \<open>
  The claim as it was stated fails after \<open>tx.start('first'); tx.start('second')\<close>: the
  transaction is open, its item list is empty, and \<open>tx.commit(callback)\<close> calls the
  callback with the error \<open>multiple-transactions-open\<close> and returns \<open>undefined\<close>.
\<close>

theorem commit_after_second_start_counterexample:
  "tx_transaction_id (tx startedTwice) = Some ''T1''
   \<and> tx_items (tx startedTwice) = []
   \<and> snd (commit env0 cfg0 offline ArgFunction ArgUndefined startedTwice) = RetUndefined
   \<and> called (fst (commit env0 cfg0 offline ArgFunction ArgUndefined startedTwice))
       = [(Some (MeteorError ''multiple-transactions-open''), ResFalse)]"
  by (simp add: startedTwice_def startedOnce_def start_def commit_def multipleTransactionsOpen_def
        callback_def env0_def cfg0_def world0_def cleanTx_def Let_def)

subsection \<open>An update command without an inverse function\<close>




subsection \<open>Rollback\<close>

text \<open>
  A rollback that is not left by an exception leaves the application collections as the
  writes for its items leave them when they are made from the first item to the last.
\<close>

lemma rollbackLoop_applyEach:
  "rollbackLoop e txid obs index (st, error) = (st', error', None) \<Longrightarrow>
   collectionIndex st' = collectionIndex (applyEach e (List.map_filter (rollbackWrite e txid) obs) st)"
proof (induction obs arbitrary: index st error)
  case Nil
  then show ?case by simp
next
  case (Cons ob obs)
  from Cons.prems obtain a where a: "rollbackAction e txid ob = Inr a"
    by (cases "rollbackAction e txid ob") simp_all
  then have rw: "rollbackWrite e txid ob = a" by (simp add: rollbackWrite_def)
  obtain st1 error1 where s1:
    "(case a of None \<Rightarrow> (st, error)
      | Some w \<Rightarrow> (case execOp e w st of Inl err \<Rightarrow> (st, True) | Inr sa \<Rightarrow> (sa, error))) = (st1, error1)"
    by (cases "(case a of None \<Rightarrow> (st, error)
      | Some w \<Rightarrow> (case execOp e w st of Inl err \<Rightarrow> (st, True) | Inr sa \<Rightarrow> (sa, error)))")
  have head: "collectionIndex (applyEach e (List.map_filter (rollbackWrite e txid) (ob # obs)) st)
              = collectionIndex (applyEach e (List.map_filter (rollbackWrite e txid) obs) st1)"
    using rw s1 by (auto split: option.splits sum.splits)
  show ?case
  proof (cases error1)
    case True
    with Cons.prems a s1 have "rollbackLoop e txid obs (Suc index) (st1, error1) = (st', error', None)"
      by simp
    from Cons.IH [OF this] head show ?thesis by simp
  next
    case False
    with Cons.prems a s1 obtain st2 where
      c: "changeItemState txid index RolledBack st1 = Inr st2"
      and r: "rollbackLoop e txid obs (Suc index) (st2, error1) = (st', error', None)"
      by (auto split: sum.splits)
    from Cons.IH [OF r]
    have "collectionIndex st' = collectionIndex (applyEach e (List.map_filter (rollbackWrite e txid) obs) st2)" .
    also have "\<dots> = collectionIndex (applyEach e (List.map_filter (rollbackWrite e txid) obs) st1)"
      by (rule applyEach_cong) (rule changeItemState_collectionIndex [OF c])
    finally show ?thesis using head by simp
  qed
qed

lemma rollback_applies_in_stored_order:
  assumes "rollback e cfg w = (w', None)"
  shows "collectionIndex (db w')
         = collectionIndex (applyEach e
             (List.map_filter (rollbackWrite e (tx_transaction_id (tx w))) (tx_items (tx w))) (db w))"
proof -
  obtain st error r where l:
    "rollbackLoop e (tx_transaction_id (tx w)) (tx_items (tx w)) 0 (db w, False) = (st, error, r)"
    by (cases "rollbackLoop e (tx_transaction_id (tx w)) (tx_items (tx w)) 0 (db w, False)")
  with assms have r: "r = None" by (cases r) (simp_all add: rollback_def Let_def)
  with assms l have "collectionIndex (db w') = collectionIndex st"
    by (auto simp: rollback_def Let_def removeTransaction_def updateTransaction_def)
  with rollbackLoop_applyEach [OF l [unfolded r]] show ?thesis by simp
qed

text \<open>
  C1. A rollback is to apply the stored inverses of the applied actions last action first.
  \<open>rollback\<close> walks \<open>_items\<close> from the first item to the last. A transaction sets \<open>n\<close>
  from 1 to 2 and from 2 to 3 with two instant updates and is cancelled: the rollback
  applies the inverse \<open>{$set: {n: 1}}\<close> of the first and then \<open>{$set: {n: 2}}\<close> of the second,
  and \<open>n\<close> ends as 2, not as the 1 it was. An item that is not instant has no rollback
  action at all, so an update that phase 2 applied is not reversed either.
\<close>

theorem rollback_runs_in_queue_order:
  "map_of (collectionIndex counterStore) ''foo'' = Some [ [(''_id'', JStr ''f1''), (''n'', JNum 1)] ]
   \<and> map i_inverse (tx_items (tx twoInstantUpdates))
       = [Some (''$set'', [(''n'', JNum 1)]), Some (''$set'', [(''n'', JNum 2)])]
   \<and> map_of (collectionIndex (db (fst (rollback env0 cfg0 twoInstantUpdates)))) ''foo''
       = Some [ [(''_id'', JStr ''f1''), (''n'', JNum 2), (''transaction_id'', JStr ''T1'')] ]
   \<and> snd (rollback env0 cfg0 twoInstantUpdates) = None
   \<and> rollbackAction env0 (Some ''T1'') fooUpdate = Inr None"
  by code_simp

subsection \<open>Undo and redo\<close>

lemma undoScanItem_expired:
  "undoScanItem e st txid ob (True, q) = Inr (True, q)"
  by (simp add: undoScanItem_def)

lemma undoScan_expired:
  "undoScan e st txid xs (True, q) = Inr r \<Longrightarrow> fst r"
  by (induction xs) (auto simp: undoScanItem_expired split: stored_item.splits)

lemma undoScanItem_queue:
  "undoScanItem e st txid ob (False, q0) = Inr (False, q) \<Longrightarrow>
   q = q0 @ (case inverseAction e txid (Item ob) of None \<Rightarrow> [] | Some w \<Rightarrow> [w])"
  by (auto simp: undoScanItem_def inverseAction_def
      split: action.splits option.splits sum.splits if_splits prod.splits)

lemma undoScan_queue:
  "undoScan e st txid xs (False, q0) = Inr (False, q) \<Longrightarrow>
   q = q0 @ List.map_filter (inverseAction e txid) xs"
proof (induction xs arbitrary: q0)
  case Nil
  then show ?case by simp
next
  case (Cons v xs)
  show ?case
  proof (cases v)
    case (Item ob)
    with Cons.prems obtain ex q1 where
      step: "undoScanItem e st txid ob (False, q0) = Inr (ex, q1)"
      and rest: "undoScan e st txid xs (ex, q1) = Inr (False, q)"
      by (auto split: sum.splits)
    have "\<not> ex"
    proof
      assume ex
      with rest undoScan_expired [of e st txid xs q1 "(False, q)"] show False by simp
    qed
    with step rest Cons.IH [of q1] undoScanItem_queue [of e st txid ob q0 q1] Item
    show ?thesis by (auto split: option.splits)
  next
    case (StateOnly s)
    with Cons.prems Cons.IH [of q0] show ?thesis by (simp add: inverseAction_def)
  next
    case NullItem
    with Cons.prems show ?thesis by simp
  qed
qed

lemma redoScanItem_expired:
  "redoScanItem e st txid ob (True, q) = Inr r \<Longrightarrow> fst r"
  by (auto simp: redoScanItem_def split: action.splits option.splits sum.splits if_splits prod.splits)

lemma redoScan_expired:
  "redoScan e st txid xs (True, q) = Inr r \<Longrightarrow> fst r"
proof (induction xs arbitrary: q)
  case Nil
  then show ?case by auto
next
  case (Cons v xs)
  show ?case
  proof (cases v)
    case (Item ob)
    with Cons.prems obtain r1 where
      step: "redoScanItem e st txid ob (True, q) = Inr r1"
      and rest: "redoScan e st txid xs r1 = Inr r"
      by (auto split: sum.splits)
    from redoScanItem_expired [OF step] have "r1 = (True, snd r1)" by (cases r1) simp
    with rest Cons.IH [of "snd r1"] show ?thesis by simp
  next
    case (StateOnly s)
    with Cons.prems Cons.IH [of q] show ?thesis by simp
  next
    case NullItem
    with Cons.prems show ?thesis by simp
  qed
qed

lemma redoScanItem_queue:
  "redoScanItem e st txid ob (False, q0) = Inr (False, q) \<Longrightarrow>
   q = q0 @ (case forwardAction e txid (Item ob) of None \<Rightarrow> [] | Some w \<Rightarrow> [w])"
  by (auto simp: redoScanItem_def forwardAction_def
      split: action.splits option.splits sum.splits if_splits prod.splits)

lemma redoScan_queue:
  "redoScan e st txid xs (False, q0) = Inr (False, q) \<Longrightarrow>
   q = q0 @ List.map_filter (forwardAction e txid) xs"
proof (induction xs arbitrary: q0)
  case Nil
  then show ?case by simp
next
  case (Cons v xs)
  show ?case
  proof (cases v)
    case (Item ob)
    with Cons.prems obtain ex q1 where
      step: "redoScanItem e st txid ob (False, q0) = Inr (ex, q1)"
      and rest: "redoScan e st txid xs (ex, q1) = Inr (False, q)"
      by (auto split: sum.splits)
    have "\<not> ex"
    proof
      assume ex
      with rest redoScan_expired [of e st txid xs q1 "(False, q)"] show False by simp
    qed
    with step rest Cons.IH [of q1] redoScanItem_queue [of e st txid ob q0 q1] Item
    show ?thesis by (auto split: option.splits)
  next
    case (StateOnly s)
    with Cons.prems Cons.IH [of q0] show ?thesis by (simp add: forwardAction_def)
  next
    case NullItem
    with Cons.prems show ?thesis by simp
  qed
qed


lemma processQueue_applyEach:
  "processQueue e txid s indexOf q index st = (st1, None) \<Longrightarrow>
   collectionIndex st1 = collectionIndex (applyEach e q st)"
proof (induction q arbitrary: index st)
  case Nil
  then show ?case by simp
next
  case (Cons w ws)
  show ?case
  proof (cases "execOp e w st")
    case (Inl err)
    with Cons show ?thesis by simp
  next
    case (Inr sa)
    with Cons.prems obtain sb where
      c: "changeItemState (Some txid) (indexOf index) s sa = Inr sb"
      and r: "processQueue e txid s indexOf ws (Suc index) sb = (st1, None)"
      by (auto split: sum.splits)
    from Cons.IH [OF r] have "collectionIndex st1 = collectionIndex (applyEach e ws sb)" .
    also have "\<dots> = collectionIndex (applyEach e ws sa)"
      by (rule applyEach_cong) (rule changeItemState_collectionIndex [OF c])
    finally show ?thesis using Inr by simp
  qed
qed

lemma undoChecked_success:
  assumes ret: "snd (undoChecked e st txid xs) = RetFalse"
  shows "\<exists>st1. processQueue e txid Undone
                (undoIndex (length (List.map_filter (inverseAction e txid) (rev xs))))
                (List.map_filter (inverseAction e txid) (rev xs)) 0 st = (st1, None)
           \<and> fst (undoChecked e st txid xs)
               = updateTransaction (Some txid)
                   (\<lambda>t. t\<lparr>tr_undone := Some (now e), tr_state := Undone\<rparr>) st1"
proof -
  let ?q = "List.map_filter (inverseAction e txid) (rev xs)"
  have "\<exists>q. undoScan e st txid (rev xs) (False, []) = Inr (False, q)"
  proof (cases "undoScan e st txid (rev xs) (False, [])")
    case (Inl err)
    with ret show ?thesis by (simp add: undoChecked_def)
  next
    case (Inr r)
    obtain ex q where r: "r = (ex, q)" by (cases r)
    with Inr ret show ?thesis by (cases ex) (simp_all add: undoChecked_def)
  qed
  then obtain q where scq: "undoScan e st txid (rev xs) (False, []) = Inr (False, q)" ..
  from undoScan_queue [OF scq] have q: "q = ?q" by simp
  note scan = scq [unfolded q]
  obtain st1 r where pq: "processQueue e txid Undone (undoIndex (length ?q)) ?q 0 st = (st1, r)"
    by (cases "processQueue e txid Undone (undoIndex (length ?q)) ?q 0 st")
  have r: "r = None"
  proof (cases r)
    case None
    then show ?thesis .
  next
    case (Some err)
    with ret scan pq show ?thesis by (simp add: undoChecked_def)
  qed
  from scan pq r
  have "fst (undoChecked e st txid xs)
          = updateTransaction (Some txid)
              (\<lambda>t. t\<lparr>tr_undone := Some (now e), tr_state := Undone\<rparr>) st1"
    by (simp add: undoChecked_def)
  with pq r show ?thesis by auto
qed


lemma redoChecked_success:
  assumes ret: "snd (redoChecked e st txid xs) = RetFalse"
  shows "\<exists>st1. processQueue e txid Done (\<lambda>index. index)
                (List.map_filter (forwardAction e txid) xs) 0 st = (st1, None)
           \<and> fst (redoChecked e st txid xs)
               = updateTransaction (Some txid) (\<lambda>t. t\<lparr>tr_undone := None, tr_state := Done\<rparr>) st1"
proof -
  let ?q = "List.map_filter (forwardAction e txid) xs"
  have "\<exists>q. redoScan e st txid xs (False, []) = Inr (False, q)"
  proof (cases "redoScan e st txid xs (False, [])")
    case (Inl err)
    with ret show ?thesis by (simp add: redoChecked_def)
  next
    case (Inr r)
    obtain ex q where r: "r = (ex, q)" by (cases r)
    with Inr ret show ?thesis by (cases ex) (simp_all add: redoChecked_def)
  qed
  then obtain q where scq: "redoScan e st txid xs (False, []) = Inr (False, q)" ..
  from redoScan_queue [OF scq] have q: "q = ?q" by simp
  note scan = scq [unfolded q]
  obtain st1 r where pq: "processQueue e txid Done (\<lambda>index. index) ?q 0 st = (st1, r)"
    by (cases "processQueue e txid Done (\<lambda>index. index) ?q 0 st")
  have r: "r = None"
  proof (cases r)
    case None
    then show ?thesis .
  next
    case (Some err)
    with ret scan pq show ?thesis by (simp add: redoChecked_def)
  qed
  from scan pq r
  have "fst (redoChecked e st txid xs)
          = updateTransaction (Some txid) (\<lambda>t. t\<lparr>tr_undone := None, tr_state := Done\<rparr>) st1"
    by (simp add: redoChecked_def)
  with pq r show ?thesis by auto
qed

lemma undo_cases:
  assumes sel: "selectUndo e st txid = Some t"
    and ret: "snd (meteorTransactionsUndo e cfg txid st) = RetFalse"
  shows "(tr_items t = ItemsUndefined
            \<and> fst (meteorTransactionsUndo e cfg txid st) = removeTransaction (Some (tr_id t)) st)
         \<or> (tr_items t \<noteq> ItemsUndefined
            \<and> meteorTransactionsUndo e cfg txid st = undoChecked e st (tr_id t) (itemsOf (tr_items t)))"
proof -
  have user: "\<not> (requireUser cfg \<and> userId e = None)"
  proof
    assume "requireUser cfg \<and> userId e = None"
    then have "meteorTransactionsUndo e cfg txid st = (st, RetUndefined)"
      by (simp add: meteorTransactionsUndo_def)
    with ret show False by simp
  qed
  show ?thesis
  proof (cases "tr_items t = ItemsUndefined")
    case True
    with user sel show ?thesis unfolding meteorTransactionsUndo_def by auto
  next
    case False
    show ?thesis
    proof (cases "checkTransactionFields e cfg st (tr_items t) (tr_id t)")
      case (Inl err)
      with user sel False have "snd (meteorTransactionsUndo e cfg txid st) = RetThrow err"
        unfolding meteorTransactionsUndo_def by auto
      with ret show ?thesis by simp
    next
      case (Inr allowed)
      show ?thesis
      proof (cases allowed)
        case True
        with user sel False Inr show ?thesis unfolding meteorTransactionsUndo_def by auto
      next
        case no: False
        with user sel False Inr have "snd (meteorTransactionsUndo e cfg txid st) = RetTrue"
          unfolding meteorTransactionsUndo_def by auto
        with ret show ?thesis by simp
      qed
    qed
  qed
qed

lemma redo_cases:
  assumes sel: "selectRedo e st txid = Some t"
    and its: "tr_items t \<noteq> ItemsUndefined"
    and ret: "snd (meteorTransactionsRedo e cfg txid st) = RetFalse"
  shows "meteorTransactionsRedo e cfg txid st = redoChecked e st (tr_id t) (itemsOf (tr_items t))"
proof -
  have user: "\<not> (requireUser cfg \<and> userId e = None)"
  proof
    assume "requireUser cfg \<and> userId e = None"
    then have "meteorTransactionsRedo e cfg txid st = (st, RetUndefined)"
      by (simp add: meteorTransactionsRedo_def)
    with ret show False by simp
  qed
  show ?thesis
  proof (cases "checkTransactionFields e cfg st (tr_items t) (tr_id t)")
    case (Inl err)
    with user sel its have "snd (meteorTransactionsRedo e cfg txid st) = RetThrow err"
      unfolding meteorTransactionsRedo_def by auto
    with ret show ?thesis by simp
  next
    case (Inr allowed)
    show ?thesis
    proof (cases allowed)
      case True
      with user sel its Inr show ?thesis unfolding meteorTransactionsRedo_def by auto
    next
      case no: False
      with user sel its Inr have "snd (meteorTransactionsRedo e cfg txid st) = RetTrue"
        unfolding meteorTransactionsRedo_def by auto
      with ret show ?thesis by simp
    qed
  qed
qed

lemma collectionIndex_updateTransaction [simp]:
  "collectionIndex (updateTransaction txid f st) = collectionIndex st"
  by (simp add: updateTransaction_def)

text \<open>
  C3. For a persisted transaction with an array of items, an undo that goes through leaves
  the application collections as the inverse actions of the items leave them when they
  are applied one after the other from the last item to the first; a redo that goes
  through leaves them as the forward actions leave them, applied from the first item to
  the last.
\<close>

theorem undo_redo_order:
  "(selectUndo e st txid = Some t \<and> tr_items t = ItemsArray xs
      \<and> snd (meteorTransactionsUndo e cfg txid st) = RetFalse \<longrightarrow>
      collectionIndex (fst (meteorTransactionsUndo e cfg txid st))
        = collectionIndex (applyEach e (List.map_filter (inverseAction e (tr_id t)) (rev xs)) st))
   \<and> (selectRedo e st txid = Some u \<and> tr_items u = ItemsArray ys
      \<and> snd (meteorTransactionsRedo e cfg txid st) = RetFalse \<longrightarrow>
      collectionIndex (fst (meteorTransactionsRedo e cfg txid st))
        = collectionIndex (applyEach e (List.map_filter (forwardAction e (tr_id u)) ys) st))"
proof (intro conjI impI)
  assume a: "selectUndo e st txid = Some t \<and> tr_items t = ItemsArray xs
      \<and> snd (meteorTransactionsUndo e cfg txid st) = RetFalse"
  with undo_cases [of e st txid t cfg]
  have m: "meteorTransactionsUndo e cfg txid st = undoChecked e st (tr_id t) xs"
    by (simp add: itemsOf_def)
  with a have "snd (undoChecked e st (tr_id t) xs) = RetFalse" by simp
  from undoChecked_success [OF this] obtain st1 where
    "processQueue e (tr_id t) Undone
       (undoIndex (length (List.map_filter (inverseAction e (tr_id t)) (rev xs))))
       (List.map_filter (inverseAction e (tr_id t)) (rev xs)) 0 st = (st1, None)"
    and "fst (undoChecked e st (tr_id t) xs)
           = updateTransaction (Some (tr_id t))
               (\<lambda>t. t\<lparr>tr_undone := Some (now e), tr_state := Undone\<rparr>) st1"
    by blast
  with m processQueue_applyEach
  show "collectionIndex (fst (meteorTransactionsUndo e cfg txid st))
        = collectionIndex (applyEach e (List.map_filter (inverseAction e (tr_id t)) (rev xs)) st)"
    by simp
next
  assume a: "selectRedo e st txid = Some u \<and> tr_items u = ItemsArray ys
      \<and> snd (meteorTransactionsRedo e cfg txid st) = RetFalse"
  with redo_cases [of e st txid u cfg]
  have m: "meteorTransactionsRedo e cfg txid st = redoChecked e st (tr_id u) ys"
    by (simp add: itemsOf_def)
  with a have "snd (redoChecked e st (tr_id u) ys) = RetFalse" by simp
  from redoChecked_success [OF this] obtain st1 where
    "processQueue e (tr_id u) Done (\<lambda>index. index)
       (List.map_filter (forwardAction e (tr_id u)) ys) 0 st = (st1, None)"
    and "fst (redoChecked e st (tr_id u) ys)
           = updateTransaction (Some (tr_id u)) (\<lambda>t. t\<lparr>tr_undone := None, tr_state := Done\<rparr>) st1"
    by blast
  with m processQueue_applyEach
  show "collectionIndex (fst (meteorTransactionsRedo e cfg txid st))
        = collectionIndex (applyEach e (List.map_filter (forwardAction e (tr_id u)) ys) st)"
    by simp
qed

theorem undo_redo_order_witness:
  "selectUndo env0 committedStore (Some ''T1'') = Some recordA
   \<and> tr_items recordA = ItemsArray [Item insertA, Item updateA]
   \<and> snd (meteorTransactionsUndo env0 cfg0 (Some ''T1'') committedStore) = RetFalse
   \<and> List.map_filter (inverseAction env0 ''T1'') (rev [Item insertA, Item updateA])
       = [OpUpdate ''foo'' (ById ''a1'') [(''$set'', [(''v'', JNum 1)])],
          OpRemove ''foo'' (ByIdAndTx ''a1'' (Some ''T1''))]
   \<and> collectionIndex (fst (meteorTransactionsUndo env0 cfg0 (Some ''T1'') committedStore))
       = collectionIndex (applyEach env0
           [OpUpdate ''foo'' (ById ''a1'') [(''$set'', [(''v'', JNum 1)])],
            OpRemove ''foo'' (ByIdAndTx ''a1'' (Some ''T1''))] committedStore)
   \<and> selectRedo env0 undoneStore (Some ''T1'') \<noteq> None
   \<and> snd (meteorTransactionsRedo env0 cfg0 (Some ''T1'') undoneStore) = RetFalse
   \<and> List.map_filter (forwardAction env0 ''T1'') [Item insertA, Item updateA]
       = [OpInsert ''foo'' [(''v'', JNum 1), (''_id'', JStr ''a1''), (''transaction_id'', JStr ''T1'')],
          OpUpdate ''foo'' (ById ''a1'') [(''$set'', [(''v'', JNum 2)])] ]
   \<and> collectionIndex (fst (meteorTransactionsRedo env0 cfg0 (Some ''T1'') undoneStore))
       = collectionIndex (applyEach env0
           [OpInsert ''foo'' [(''v'', JNum 1), (''_id'', JStr ''a1''), (''transaction_id'', JStr ''T1'')],
            OpUpdate ''foo'' (ById ''a1'') [(''$set'', [(''v'', JNum 2)])] ] undoneStore)
   \<and> collectionIndex undoneStore = [(''foo'', [])]
   \<and> collectionIndex (fst (meteorTransactionsRedo env0 cfg0 (Some ''T1'') undoneStore))
       = collectionIndex committedStore"
proof -
  have v1: "collectionIndex undoneStore = [(''foo'', [])]" by code_simp
  have v2: "collectionIndex (fst (meteorTransactionsRedo env0 cfg0 (Some ''T1'') undoneStore))
       = collectionIndex committedStore" by code_simp
  have u1: "selectUndo env0 committedStore (Some ''T1'') = Some recordA" by code_simp
  have u2: "tr_items recordA = ItemsArray [Item insertA, Item updateA]" by (simp add: recordA_def)
  have u3: "snd (meteorTransactionsUndo env0 cfg0 (Some ''T1'') committedStore) = RetFalse"
    by code_simp
  have u4: "List.map_filter (inverseAction env0 ''T1'') (rev [Item insertA, Item updateA])
       = [OpUpdate ''foo'' (ById ''a1'') [(''$set'', [(''v'', JNum 1)])],
          OpRemove ''foo'' (ByIdAndTx ''a1'' (Some ''T1''))]" by code_simp
  have tid: "tr_id recordA = ''T1''" by (simp add: recordA_def)
  obtain r where r1: "selectRedo env0 undoneStore (Some ''T1'') = Some r"
    and r2: "tr_items r = ItemsArray [Item (insertA\<lparr>i_state := Undone\<rparr>), Item (updateA\<lparr>i_state := Undone\<rparr>)]"
    and r0: "tr_id r = ''T1''"
  proof
    show "selectRedo env0 undoneStore (Some ''T1'')
            = Some (recordA\<lparr>tr_state := Undone, tr_undone := Some 100,
                 tr_items := ItemsArray [Item (insertA\<lparr>i_state := Undone\<rparr>),
                                         Item (updateA\<lparr>i_state := Undone\<rparr>)]\<rparr>)"
      by code_simp
  qed (simp_all add: recordA_def)
  have r3: "snd (meteorTransactionsRedo env0 cfg0 (Some ''T1'') undoneStore) = RetFalse"
    by code_simp
  have r4: "List.map_filter (forwardAction env0 ''T1'')
              [Item (insertA\<lparr>i_state := Undone\<rparr>), Item (updateA\<lparr>i_state := Undone\<rparr>)]
       = [OpInsert ''foo'' [(''v'', JNum 1), (''_id'', JStr ''a1''), (''transaction_id'', JStr ''T1'')],
          OpUpdate ''foo'' (ById ''a1'') [(''$set'', [(''v'', JNum 2)])] ]" by code_simp
  have r5: "List.map_filter (forwardAction env0 ''T1'') [Item insertA, Item updateA]
       = [OpInsert ''foo'' [(''v'', JNum 1), (''_id'', JStr ''a1''), (''transaction_id'', JStr ''T1'')],
          OpUpdate ''foo'' (ById ''a1'') [(''$set'', [(''v'', JNum 2)])] ]" by code_simp
  from undo_redo_order [where e = env0 and st = committedStore and txid = "Some ''T1''"
         and t = recordA and xs = "[Item insertA, Item updateA]" and cfg = cfg0] u1 u2 u3
  have cu: "collectionIndex (fst (meteorTransactionsUndo env0 cfg0 (Some ''T1'') committedStore))
       = collectionIndex (applyEach env0
           (List.map_filter (inverseAction env0 ''T1'') (rev [Item insertA, Item updateA]))
           committedStore)"
    by (simp add: tid)
  from undo_redo_order [where e = env0 and st = undoneStore and txid = "Some ''T1''"
         and u = r and cfg = cfg0
         and ys = "[Item (insertA\<lparr>i_state := Undone\<rparr>), Item (updateA\<lparr>i_state := Undone\<rparr>)]"]
       r1 r2 r3
  have cr: "collectionIndex (fst (meteorTransactionsRedo env0 cfg0 (Some ''T1'') undoneStore))
       = collectionIndex (applyEach env0
           (List.map_filter (forwardAction env0 ''T1'')
              [Item (insertA\<lparr>i_state := Undone\<rparr>), Item (updateA\<lparr>i_state := Undone\<rparr>)])
           undoneStore)"
    by (simp add: r0)
  from r1 have r1': "selectRedo env0 undoneStore (Some ''T1'') \<noteq> None" by simp
  show ?thesis
    using u1 u2 u3 u4 cu [unfolded u4] r1' r3 r5 cr [unfolded r4] v1 v2 by blast
qed

lemma collectionIndex_markExpired [simp]:
  "collectionIndex (markExpired txid st) = collectionIndex st"
  by (simp add: markExpired_def)

lemma Transactions_markExpired:
  "Transactions (markExpired txid st)
     = map (\<lambda>r. if tr_id r = txid then r\<lparr>tr_expired := True\<rparr> else r) (Transactions st)"
  by (simp add: markExpired_def updateTransaction_def)

lemma undoChecked_expired:
  assumes "snd (undoChecked e st txid xs) = RetTrue"
  shows "fst (undoChecked e st txid xs) = markExpired txid st"
proof (cases "undoScan e st txid (rev xs) (False, [])")
  case (Inl err)
  with assms show ?thesis by (simp add: undoChecked_def)
next
  case (Inr r)
  obtain ex q where r: "r = (ex, q)" by (cases r)
  show ?thesis
  proof (cases ex)
    case True
    with Inr r show ?thesis by (simp add: undoChecked_def)
  next
    case False
    obtain st1 z where pq: "processQueue e txid Undone (undoIndex (length q)) q 0 st = (st1, z)"
      by (cases "processQueue e txid Undone (undoIndex (length q)) q 0 st")
    with Inr r False assms show ?thesis by (cases z) (simp_all add: undoChecked_def)
  qed
qed

lemma redoChecked_expired:
  assumes "snd (redoChecked e st txid xs) = RetTrue"
  shows "fst (redoChecked e st txid xs) = markExpired txid st"
proof (cases "redoScan e st txid xs (False, [])")
  case (Inl err)
  with assms show ?thesis by (simp add: redoChecked_def)
next
  case (Inr r)
  obtain ex q where r: "r = (ex, q)" by (cases r)
  show ?thesis
  proof (cases ex)
    case True
    with Inr r show ?thesis by (simp add: redoChecked_def)
  next
    case False
    obtain st1 z where pq: "processQueue e txid Done (\<lambda>index. index) q 0 st = (st1, z)"
      by (cases "processQueue e txid Done (\<lambda>index. index) q 0 st")
    with Inr r False assms show ?thesis by (cases z) (simp_all add: redoChecked_def)
  qed
qed

lemma undo_expired:
  assumes ret: "snd (meteorTransactionsUndo e cfg txid st) = RetTrue"
  shows "\<exists>t. selectUndo e st txid = Some t
              \<and> fst (meteorTransactionsUndo e cfg txid st) = markExpired (tr_id t) st"
proof -
  have user: "\<not> (requireUser cfg \<and> userId e = None)"
  proof
    assume "requireUser cfg \<and> userId e = None"
    then have "meteorTransactionsUndo e cfg txid st = (st, RetUndefined)"
      by (simp add: meteorTransactionsUndo_def)
    with ret show False by simp
  qed
  show ?thesis
  proof (cases "selectUndo e st txid")
    case None
    with user have "meteorTransactionsUndo e cfg txid st = (st, RetFalse)"
      unfolding meteorTransactionsUndo_def by auto
    with ret show ?thesis by simp
  next
    case (Some t)
    show ?thesis
    proof (cases "tr_items t = ItemsUndefined")
      case True
      with user Some have "snd (meteorTransactionsUndo e cfg txid st) = RetFalse"
        unfolding meteorTransactionsUndo_def by auto
      with ret show ?thesis by simp
    next
      case False
      show ?thesis
      proof (cases "checkTransactionFields e cfg st (tr_items t) (tr_id t)")
        case (Inl err)
        with user Some False have "snd (meteorTransactionsUndo e cfg txid st) = RetThrow err"
          unfolding meteorTransactionsUndo_def by auto
        with ret show ?thesis by simp
      next
        case (Inr allowed)
        show ?thesis
        proof (cases allowed)
          case True
          with user Some False Inr
          have m: "meteorTransactionsUndo e cfg txid st
                     = undoChecked e st (tr_id t) (itemsOf (tr_items t))"
            unfolding meteorTransactionsUndo_def by auto
          with ret undoChecked_expired [of e st "tr_id t" "itemsOf (tr_items t)"] Some
          show ?thesis by simp
        next
          case no: False
          with user Some False Inr
          have "meteorTransactionsUndo e cfg txid st = (markExpired (tr_id t) st, RetTrue)"
            unfolding meteorTransactionsUndo_def by auto
          with Some show ?thesis by simp
        qed
      qed
    qed
  qed
qed

lemma redo_expired:
  assumes ret: "snd (meteorTransactionsRedo e cfg txid st) = RetTrue"
  shows "\<exists>t. selectRedo e st txid = Some t
              \<and> fst (meteorTransactionsRedo e cfg txid st) = markExpired (tr_id t) st"
proof -
  have user: "\<not> (requireUser cfg \<and> userId e = None)"
  proof
    assume "requireUser cfg \<and> userId e = None"
    then have "meteorTransactionsRedo e cfg txid st = (st, RetUndefined)"
      by (simp add: meteorTransactionsRedo_def)
    with ret show False by simp
  qed
  show ?thesis
  proof (cases "selectRedo e st txid")
    case None
    with user have "meteorTransactionsRedo e cfg txid st = (st, RetFalse)"
      unfolding meteorTransactionsRedo_def by auto
    with ret show ?thesis by simp
  next
    case (Some t)
    show ?thesis
    proof (cases "tr_items t = ItemsUndefined")
      case True
      with user Some have "snd (meteorTransactionsRedo e cfg txid st) = RetFalse"
        unfolding meteorTransactionsRedo_def by auto
      with ret show ?thesis by simp
    next
      case False
      show ?thesis
      proof (cases "checkTransactionFields e cfg st (tr_items t) (tr_id t)")
        case (Inl err)
        with user Some False have "snd (meteorTransactionsRedo e cfg txid st) = RetThrow err"
          unfolding meteorTransactionsRedo_def by auto
        with ret show ?thesis by simp
      next
        case (Inr allowed)
        show ?thesis
        proof (cases allowed)
          case True
          with user Some False Inr
          have m: "meteorTransactionsRedo e cfg txid st
                     = redoChecked e st (tr_id t) (itemsOf (tr_items t))"
            unfolding meteorTransactionsRedo_def by auto
          with ret redoChecked_expired [of e st "tr_id t" "itemsOf (tr_items t)"] Some
          show ?thesis by simp
        next
          case no: False
          with user Some False Inr
          have "meteorTransactionsRedo e cfg txid st = (markExpired (tr_id t) st, RetTrue)"
            unfolding meteorTransactionsRedo_def by auto
          with Some show ?thesis by simp
        qed
      qed
    qed
  qed
qed

text \<open>
  C2. An undo or a redo that detects staleness returns \<open>expired = true\<close>. Whenever one of
  them returns that, it has found its transaction, the application collections are what
  they were, and the records of the transactions are what they were but for
  \<open>expired = true\<close> on the record of that transaction.
\<close>

theorem expired_writes_only_the_flag:
  "(snd (meteorTransactionsUndo e cfg txid st) = RetTrue \<longrightarrow>
      (\<exists>t. selectUndo e st txid = Some t
          \<and> collectionIndex (fst (meteorTransactionsUndo e cfg txid st)) = collectionIndex st
          \<and> Transactions (fst (meteorTransactionsUndo e cfg txid st))
              = map (\<lambda>r. if tr_id r = tr_id t then r\<lparr>tr_expired := True\<rparr> else r) (Transactions st)))
   \<and> (snd (meteorTransactionsRedo e cfg txid st) = RetTrue \<longrightarrow>
      (\<exists>t. selectRedo e st txid = Some t
          \<and> collectionIndex (fst (meteorTransactionsRedo e cfg txid st)) = collectionIndex st
          \<and> Transactions (fst (meteorTransactionsRedo e cfg txid st))
              = map (\<lambda>r. if tr_id r = tr_id t then r\<lparr>tr_expired := True\<rparr> else r) (Transactions st)))"
proof (intro conjI impI)
  assume "snd (meteorTransactionsUndo e cfg txid st) = RetTrue"
  from undo_expired [OF this] obtain t where
    "selectUndo e st txid = Some t"
    "fst (meteorTransactionsUndo e cfg txid st) = markExpired (tr_id t) st" by blast
  then show "\<exists>t. selectUndo e st txid = Some t
          \<and> collectionIndex (fst (meteorTransactionsUndo e cfg txid st)) = collectionIndex st
          \<and> Transactions (fst (meteorTransactionsUndo e cfg txid st))
              = map (\<lambda>r. if tr_id r = tr_id t then r\<lparr>tr_expired := True\<rparr> else r) (Transactions st)"
    by (simp add: Transactions_markExpired)
next
  assume "snd (meteorTransactionsRedo e cfg txid st) = RetTrue"
  from redo_expired [OF this] obtain t where
    "selectRedo e st txid = Some t"
    "fst (meteorTransactionsRedo e cfg txid st) = markExpired (tr_id t) st" by blast
  then show "\<exists>t. selectRedo e st txid = Some t
          \<and> collectionIndex (fst (meteorTransactionsRedo e cfg txid st)) = collectionIndex st
          \<and> Transactions (fst (meteorTransactionsRedo e cfg txid st))
              = map (\<lambda>r. if tr_id r = tr_id t then r\<lparr>tr_expired := True\<rparr> else r) (Transactions st)"
    by (simp add: Transactions_markExpired)
qed

theorem expired_writes_only_the_flag_witness:
  "snd (meteorTransactionsUndo env0 cfg0 (Some ''T1'') staleStore) = RetTrue
   \<and> collectionIndex (fst (meteorTransactionsUndo env0 cfg0 (Some ''T1'') staleStore))
       = collectionIndex staleStore
   \<and> Transactions (fst (meteorTransactionsUndo env0 cfg0 (Some ''T1'') staleStore))
       = [recordT1\<lparr>tr_expired := True\<rparr>, recordT2]
   \<and> snd (meteorTransactionsRedo env0 cfg0 (Some ''T1'') blockedStore) = RetTrue
   \<and> collectionIndex (fst (meteorTransactionsRedo env0 cfg0 (Some ''T1'') blockedStore))
       = collectionIndex blockedStore
   \<and> Transactions (fst (meteorTransactionsRedo env0 cfg0 (Some ''T1'') blockedStore))
       = [recordT1\<lparr>tr_state := Undone, tr_undone := Some 30, tr_expired := True\<rparr>]"
proof -
  have u: "snd (meteorTransactionsUndo env0 cfg0 (Some ''T1'') staleStore) = RetTrue" by code_simp
  have su: "selectUndo env0 staleStore (Some ''T1'') = Some recordT1" by code_simp
  have r: "snd (meteorTransactionsRedo env0 cfg0 (Some ''T1'') blockedStore) = RetTrue" by code_simp
  have sr: "selectRedo env0 blockedStore (Some ''T1'')
              = Some (recordT1\<lparr>tr_state := Undone, tr_undone := Some 30\<rparr>)" by code_simp
  from expired_writes_only_the_flag [of env0 cfg0 "Some ''T1''" staleStore] u su
  have a: "collectionIndex (fst (meteorTransactionsUndo env0 cfg0 (Some ''T1'') staleStore))
             = collectionIndex staleStore
         \<and> Transactions (fst (meteorTransactionsUndo env0 cfg0 (Some ''T1'') staleStore))
             = [recordT1\<lparr>tr_expired := True\<rparr>, recordT2]"
    by (auto simp: staleStore_def recordT1_def recordT2_def)
  from expired_writes_only_the_flag [of env0 cfg0 "Some ''T1''" blockedStore] r sr
  have b: "collectionIndex (fst (meteorTransactionsRedo env0 cfg0 (Some ''T1'') blockedStore))
             = collectionIndex blockedStore
         \<and> Transactions (fst (meteorTransactionsRedo env0 cfg0 (Some ''T1'') blockedStore))
             = [recordT1\<lparr>tr_state := Undone, tr_undone := Some 30, tr_expired := True\<rparr>]"
    by (auto simp: blockedStore_def recordT1_def)
  from u r a b show ?thesis by blast
qed

lemma latestBy_mem:
  "latestBy key ts best = Some u \<Longrightarrow> u \<in> set ts \<or> best = Some u"
  by (induction ts arbitrary: best) (fastforce split: option.splits if_splits)+

lemma selectUndo_eligible:
  assumes "selectUndo e st x = Some u"
  shows "u \<in> set (Transactions st) \<and> undoEligible u \<and> (given x \<longrightarrow> Some (tr_id u) = x)"
proof (cases "given x")
  case True
  with assms have "find (\<lambda>t. Some (tr_id t) = x \<and> undoEligible t) (Transactions st) = Some u"
    by (simp add: selectUndo_def)
  then show ?thesis by (auto simp: find_Some_iff)
next
  case False
  with assms have "latestBy tr_lastModified
      (filter (\<lambda>t. tr_user_id t = userId e \<and> undoEligible t) (Transactions st)) None = Some u"
    by (simp add: selectUndo_def)
  from latestBy_mem [OF this] False show ?thesis by auto
qed

lemma undone_records:
  assumes sel: "selectUndo e st txid = Some t"
    and ret: "snd (meteorTransactionsUndo e cfg txid st) = RetFalse"
    and u: "u \<in> set (Transactions (fst (meteorTransactionsUndo e cfg txid st)))"
    and same: "tr_id u = tr_id t"
  shows "\<not> undoEligible u"
proof -
  from undo_cases [OF sel ret] show ?thesis
  proof
    assume "tr_items t = ItemsUndefined
            \<and> fst (meteorTransactionsUndo e cfg txid st) = removeTransaction (Some (tr_id t)) st"
    with u same show ?thesis by (simp add: removeTransaction_def)
  next
    assume a: "tr_items t \<noteq> ItemsUndefined
            \<and> meteorTransactionsUndo e cfg txid st = undoChecked e st (tr_id t) (itemsOf (tr_items t))"
    with ret have "snd (undoChecked e st (tr_id t) (itemsOf (tr_items t))) = RetFalse" by simp
    from undoChecked_success [OF this] a obtain st1 where
      "fst (meteorTransactionsUndo e cfg txid st)
         = updateTransaction (Some (tr_id t))
             (\<lambda>t. t\<lparr>tr_undone := Some (now e), tr_state := Undone\<rparr>) st1"
      by auto
    with u same show ?thesis by (auto simp: updateTransaction_def undoEligible_def split: if_splits)
  qed
qed

text \<open>
  C9 (as amended). After an undo of a transaction has gone through, the selector of undo
  (state \<open>done\<close>, not undone, not expired) matches that transaction no more: an undo
  called again with its id finds nothing and changes neither the application collections
  nor any record, and no undo, with or without an id, selects it.
\<close>

theorem undone_transaction_is_not_eligible:
  assumes sel: "selectUndo e st txid = Some t"
    and ret: "snd (meteorTransactionsUndo e cfg txid st) = RetFalse"
    and ident: "tr_id t \<noteq> []"
  shows "fst (meteorTransactionsUndo e' cfg' (Some (tr_id t)) (fst (meteorTransactionsUndo e cfg txid st)))
           = fst (meteorTransactionsUndo e cfg txid st)
         \<and> snd (meteorTransactionsUndo e' cfg' (Some (tr_id t)) (fst (meteorTransactionsUndo e cfg txid st)))
             \<in> {RetFalse, RetUndefined}
         \<and> (\<forall>x u. selectUndo e' (fst (meteorTransactionsUndo e cfg txid st)) x = Some u
                \<longrightarrow> tr_id u \<noteq> tr_id t)"
proof -
  let ?st' = "fst (meteorTransactionsUndo e cfg txid st)"
  have none: "\<And>x u. selectUndo e' ?st' x = Some u \<Longrightarrow> tr_id u \<noteq> tr_id t"
  proof
    fix x u assume s: "selectUndo e' ?st' x = Some u" and i: "tr_id u = tr_id t"
    from selectUndo_eligible [OF s] have "u \<in> set (Transactions ?st')" "undoEligible u" by simp_all
    with undone_records [OF sel ret _ i] show False by simp
  qed
  have g: "given (Some (tr_id t))" using ident by (simp add: given_def)
  have "selectUndo e' ?st' (Some (tr_id t)) = None"
  proof (cases "selectUndo e' ?st' (Some (tr_id t))")
    case None
    then show ?thesis .
  next
    case (Some u)
    from selectUndo_eligible [OF Some] g have "tr_id u = tr_id t" by simp
    with none [OF Some] show ?thesis by simp
  qed
  then have "meteorTransactionsUndo e' cfg' (Some (tr_id t)) ?st' = (?st', RetFalse)
             \<or> meteorTransactionsUndo e' cfg' (Some (tr_id t)) ?st' = (?st', RetUndefined)"
    by (simp add: meteorTransactionsUndo_def)
  with none show ?thesis by auto
qed

theorem undone_transaction_is_not_eligible_witness:
  "selectUndo env0 committedStore (Some ''T1'') = Some recordA
   \<and> snd (meteorTransactionsUndo env0 cfg0 (Some ''T1'') committedStore) = RetFalse
   \<and> tr_id recordA \<noteq> []
   \<and> fst (meteorTransactionsUndo env0 cfg0 (Some ''T1'') undoneStore) = undoneStore
   \<and> snd (meteorTransactionsUndo env0 cfg0 (Some ''T1'') undoneStore) = RetFalse
   \<and> selectUndo env0 undoneStore None = None"
proof -
  have a: "selectUndo env0 committedStore (Some ''T1'') = Some recordA" by code_simp
  have b: "snd (meteorTransactionsUndo env0 cfg0 (Some ''T1'') committedStore) = RetFalse" by code_simp
  have c: "tr_id recordA \<noteq> []" "tr_id recordA = ''T1''" by (simp_all add: recordA_def)
  have d: "snd (meteorTransactionsUndo env0 cfg0 (Some ''T1'') undoneStore) = RetFalse" by code_simp
  have f: "selectUndo env0 undoneStore None = None" by code_simp
  from undone_transaction_is_not_eligible [OF a b c(1), of env0 cfg0]
  have "fst (meteorTransactionsUndo env0 cfg0 (Some ''T1'') undoneStore) = undoneStore"
    by (simp add: c(2) undoneStore_def)
  with a b c d f show ?thesis by blast
qed

text \<open>
  The claim as it was stated fails for \<open>tx.undo()\<close> called twice by a user with two
  committed transactions: the first call undoes the later one, and the second call, made
  at once, finds the earlier one eligible and undoes it too.
\<close>

theorem second_undo_counterexample:
  "snd (meteorTransactionsUndo env0 cfg0 None twoDoneStore) = RetFalse
   \<and> map tr_state (Transactions afterFirstUndo) = [Done, Undone]
   \<and> map_of (collectionIndex afterFirstUndo) ''foo''
       = Some [ [(''v'', JNum 2), (''_id'', JStr ''x1''), (''transaction_id'', JStr ''T1'')],
               [(''w'', JNum 1), (''_id'', JStr ''y1''), (''transaction_id'', JStr ''T2'')] ]
   \<and> snd (meteorTransactionsUndo env0 cfg0 None afterFirstUndo) = RetFalse
   \<and> map tr_state (Transactions (fst (meteorTransactionsUndo env0 cfg0 None afterFirstUndo)))
       = [Undone, Undone]
   \<and> map_of (collectionIndex (fst (meteorTransactionsUndo env0 cfg0 None afterFirstUndo))) ''foo''
       = Some [ [(''v'', JNum 1), (''_id'', JStr ''x1''), (''transaction_id'', JStr ''T1'')],
               [(''w'', JNum 1), (''_id'', JStr ''y1''), (''transaction_id'', JStr ''T2'')] ]"
  by code_simp

end
